theory Spec2Isabelle
  imports Main "HOL-Library.Multiset" "HOL-Library.Code_Target_Nat"
begin

section \<open>Data model (app/models.py)\<close>

text \<open>
  Every Django model of \<^verbatim>\<open>app/models.py\<close> is a record; a table is the list of its rows in
  insertion order. A foreign key holds the primary key of the row it points at; a nullable
  foreign key is an \<open>option\<close>. The \<open>user\<close> column of \<open>Student\<close> and \<open>Staff\<close> is not nullable in
  the database, but an instance in memory may carry no user before it is saved, so the
  record field is an \<open>option\<close> and the insert checks it.

  Dates are day numbers (days since 1970-01-01), instants are seconds since the epoch
  (UTC), and a \<open>DecimalField\<close> is counted in units of its last decimal place.
\<close>

type_synonym pk = nat
type_synonym date = int
type_synonym datetime = int
type_synonym decimal = int

datatype error =
    IntegrityError
  | DoesNotExist
  | RelatedObjectDoesNotExist
  | ValidationError
  | ValueError
  | AttributeError
  | OverflowError
  | AssertionError

text \<open>
  A request handler either returns its response or lets an exception escape (the
  framework then answers 500).
\<close>

datatype 'a outcome = Returned 'a | Raised error

record user =
  u_id :: pk
  username :: string
  email :: string
  first_name :: string
  last_name :: string
  password :: string
  is_staff :: bool
  is_superuser :: bool

record userprofile =
  up_id :: pk
  up_user :: pk
  role :: string

record department =
  dp_id :: pk
  dp_name :: string
  dp_code :: string
  dp_description :: "string option"
  hod :: "pk option"

record program =
  pg_id :: pk
  program_number :: nat
  pg_name :: string
  pg_code :: string
  program_type :: string
  pg_department :: pk
  duration_years :: nat
  pg_description :: "string option"

record course =
  c_id :: pk
  c_code :: string
  c_title :: string
  credit_hours :: decimal
  c_semester :: nat
  c_program :: pk

record student =
  s_id :: pk
  registration_no :: string
  s_user :: "pk option"
  s_full_name :: string
  gender :: string
  dob :: date
  s_email :: string
  s_phone :: string
  address :: string
  s_program :: pk
  enrollment_year :: nat
  s_is_active :: bool

record staff =
  sf_id :: pk
  sf_user :: "pk option"
  sf_full_name :: string
  staff_type :: string
  designation :: "pk option"
  sf_department :: "pk option"
  sf_email :: string
  sf_phone :: string
  date_joined :: date
  sf_is_active :: bool

record admission =
  ad_id :: pk
  ad_student :: pk
  ad_program :: pk
  admission_date :: date
  ad_status :: string

record enrollment =
  en_id :: pk
  en_student :: pk
  en_course :: pk
  en_semester :: nat
  en_year :: nat
  date_enrolled :: date

record attendance =
  at_id :: pk
  at_student :: pk
  at_course :: pk
  at_date :: date
  at_status :: string

record exam =
  ex_id :: pk
  ex_course :: pk
  exam_type :: string
  ex_date :: date
  total_marks :: nat

record grade =
  gr_id :: pk
  gr_student :: pk
  gr_exam :: pk
  obtained_marks :: decimal

record fee =
  fe_id :: pk
  fe_student :: pk
  amount :: decimal
  due_date :: date
  is_paid :: bool
  payment_date :: "date option"

record notification =
  n_id :: pk
  recipient_student :: "pk option"
  recipient_staff :: "pk option"
  notif_type :: string
  title :: string
  message :: string
  created_at :: datetime
  read :: bool
  auto_resolved :: bool

record db =
  users :: "user list"
  profiles :: "userprofile list"
  departments :: "department list"
  programs :: "program list"
  courses :: "course list"
  students :: "student list"
  staffs :: "staff list"
  admissions :: "admission list"
  enrollments :: "enrollment list"
  attendances :: "attendance list"
  exams :: "exam list"
  grades :: "grade list"
  fees :: "fee list"
  notifications :: "notification list"

definition empty_db :: db where
  "empty_db = \<lparr>users = [], profiles = [], departments = [], programs = [], courses = [],
     students = [], staffs = [], admissions = [], enrollments = [], attendances = [],
     exams = [], grades = [], fees = [], notifications = []\<rparr>"

text \<open>
  The clock, the time zone and Python's \<open>str()\<close> are inputs of the model: \<open>now\<close> is
  \<^verbatim>\<open>django.utils.timezone.now()\<close>, \<open>today\<close> is \<^verbatim>\<open>date.today()\<close>, \<open>midnight\<close> gives
  for a date the instant of its midnight in the default time zone
  (\<open>TIME_ZONE = "Asia/Karachi"\<close>) by the rules of the time zone database, and the three
  \<open>str_\<close> functions give the text an f-string prints for a date, a decimal and an integer.
\<close>

record env =
  now :: datetime
  today :: date
  midnight :: "date \<Rightarrow> datetime"
  str_date :: "date \<Rightarrow> string"
  str_decimal :: "decimal \<Rightarrow> string"
  str_nat :: "nat \<Rightarrow> string"

text \<open>The database assigns a new row the key after the largest one of its table.\<close>

definition next_pk :: "pk list \<Rightarrow> pk" where
  "next_pk ks = Suc (fold max ks 0)"

section \<open>Users and profiles\<close>

text \<open>
  \<open>user.profile\<close> is the reverse side of the one-to-one field \<open>UserProfile.user\<close>: the
  profile row whose \<open>user\<close> is this user, or \<open>RelatedObjectDoesNotExist\<close>.
\<close>

definition profile_of :: "db \<Rightarrow> user \<Rightarrow> userprofile option" where
  "profile_of d u = find (\<lambda>p. up_user p = u_id u) (profiles d)"

text \<open>
  \<open>request.user\<close> is the \<open>User\<close> row the token names, or Django's \<open>AnonymousUser\<close>,
  which is not authenticated and has no \<open>profile\<close> attribute.
\<close>

datatype request_user = AnonymousUser | AuthUser user

fun is_authenticated :: "request_user \<Rightarrow> bool" where
  "is_authenticated AnonymousUser = False"
| "is_authenticated (AuthUser u) = True"

text \<open>A view class: \<open>allowed_roles\<close> is \<open>None\<close> when the class does not define the attribute.\<close>

record view =
  allowed_roles :: "string list option"

text \<open>\<^verbatim>\<open>RoleBasedPermission.has_permission\<close> (models.py, lines 76-81).\<close>

definition has_permission :: "db \<Rightarrow> request_user \<Rightarrow> view \<Rightarrow> error + bool" where
  "has_permission d ru v =
     (let roles = (case allowed_roles v of None \<Rightarrow> [] | Some rs \<Rightarrow> rs) in
      if \<not> is_authenticated ru then Inr False
      else
        (case ru of
           AnonymousUser \<Rightarrow> Inl AttributeError
         | AuthUser u \<Rightarrow>
             (case profile_of d u of
                None \<Rightarrow> Inl RelatedObjectDoesNotExist
              | Some p \<Rightarrow> Inr (role p \<in> set roles))))"

text \<open>
  \<^verbatim>\<open>UserProfile.objects.create(user=..., role=...)\<close>: the one-to-one field is a unique
  column, so a second profile for the same user is an \<open>IntegrityError\<close>.
\<close>

definition UserProfile_objects_create :: "db \<Rightarrow> pk \<Rightarrow> string \<Rightarrow> error + db" where
  "UserProfile_objects_create d uid r =
     (if list_ex (\<lambda>p. up_user p = uid) (profiles d) then Inl IntegrityError
      else Inr (d\<lparr>profiles := profiles d @
                  [\<lparr>up_id = next_pk (map up_id (profiles d)), up_user = uid, role = r\<rparr>]\<rparr>))"

text \<open>\<^verbatim>\<open>create_user_profile\<close>, the \<open>post_save\<close> receiver of \<open>User\<close> (models.py, lines 29-38).\<close>

definition create_user_profile :: "db \<Rightarrow> user \<Rightarrow> bool \<Rightarrow> error + db" where
  "create_user_profile d instance created =
     (if created then
        (let r = (if is_superuser instance then ''Admin''
                  else if is_staff instance then ''Staff''
                  else ''Student'')
         in UserProfile_objects_create d (u_id instance) r)
      else Inr d)"

text \<open>
  \<open>user.save()\<close>. The first argument is the instance's primary key: \<open>None\<close> for an instance
  that was never saved. A key that names a row updates it (\<open>created = False\<close>); otherwise
  the row is inserted (\<open>created = True\<close>). \<open>username\<close> is a unique column. The receiver runs
  after the row is written, outside any transaction, so the row stays when the receiver
  raises: the result is the database left behind and the outcome of the call.
\<close>

definition User_save :: "db \<Rightarrow> pk option \<Rightarrow> user \<Rightarrow> db \<times> (error + user)" where
  "User_save d key u =
     (case (case key of None \<Rightarrow> None | Some k \<Rightarrow> find (\<lambda>x. u_id x = k) (users d)) of
        Some old \<Rightarrow>
          (let inst = u\<lparr>u_id := u_id old\<rparr> in
           if list_ex (\<lambda>x. username x = username u \<and> u_id x \<noteq> u_id old) (users d)
           then (d, Inl IntegrityError)
           else
             (let d1 = d\<lparr>users := map (\<lambda>x. if u_id x = u_id old then inst else x) (users d)\<rparr> in
              case create_user_profile d1 inst False of
                Inl e \<Rightarrow> (d1, Inl e)
              | Inr d2 \<Rightarrow> (d2, Inr inst)))
      | None \<Rightarrow>
          (let inst = u\<lparr>u_id := (case key of None \<Rightarrow> next_pk (map u_id (users d)) | Some k \<Rightarrow> k)\<rparr> in
           if list_ex (\<lambda>x. username x = username u) (users d)
           then (d, Inl IntegrityError)
           else
             (let d1 = d\<lparr>users := users d @ [inst]\<rparr> in
              case create_user_profile d1 inst True of
                Inl e \<Rightarrow> (d1, Inl e)
              | Inr d2 \<Rightarrow> (d2, Inr inst))))"

text \<open>
  \<^verbatim>\<open>UserCreateSerializer.create\<close> (serializers.py, lines 39-49). \<open>hash\<close> is what
  \<open>set_password\<close> stores for a raw password.
\<close>

definition UserCreateSerializer_create ::
    "(string \<Rightarrow> string) \<Rightarrow> db \<Rightarrow> user \<Rightarrow> db \<times> (error + user)" where
  "UserCreateSerializer_create hash d validated_data =
     (case User_save d None (validated_data\<lparr>password := hash (password validated_data)\<rparr>) of
        (d1, Inl e) \<Rightarrow> (d1, Inl e)
      | (d1, Inr u) \<Rightarrow>
          (case UserProfile_objects_create d1 (u_id u)
                  (if is_superuser u then ''Admin'' else if is_staff u then ''Staff'' else ''Student'') of
             Inl e \<Rightarrow> (d1, Inl e)
           | Inr d2 \<Rightarrow> (d2, Inr u)))"

text \<open>
  Deleting rows follows \<open>on_delete\<close>: \<open>CASCADE\<close> removes the rows that point at the deleted
  one, \<open>SET_NULL\<close> (\<open>Department.hod\<close>) clears the reference.
\<close>

definition Exam_delete :: "db \<Rightarrow> pk \<Rightarrow> db" where
  "Exam_delete d k =
     d\<lparr>exams := filter (\<lambda>x. ex_id x \<noteq> k) (exams d),
       grades := filter (\<lambda>g. gr_exam g \<noteq> k) (grades d)\<rparr>"

definition Student_delete :: "db \<Rightarrow> pk \<Rightarrow> db" where
  "Student_delete d k =
     d\<lparr>students := filter (\<lambda>s. s_id s \<noteq> k) (students d),
       admissions := filter (\<lambda>a. ad_student a \<noteq> k) (admissions d),
       enrollments := filter (\<lambda>e. en_student e \<noteq> k) (enrollments d),
       attendances := filter (\<lambda>a. at_student a \<noteq> k) (attendances d),
       grades := filter (\<lambda>g. gr_student g \<noteq> k) (grades d),
       fees := filter (\<lambda>f. fe_student f \<noteq> k) (fees d),
       notifications := filter (\<lambda>n. recipient_student n \<noteq> Some k) (notifications d)\<rparr>"

definition Staff_delete :: "db \<Rightarrow> pk \<Rightarrow> db" where
  "Staff_delete d k =
     d\<lparr>staffs := filter (\<lambda>s. sf_id s \<noteq> k) (staffs d),
       departments := map (\<lambda>p. if hod p = Some k then p\<lparr>hod := None\<rparr> else p) (departments d),
       notifications := filter (\<lambda>n. recipient_staff n \<noteq> Some k) (notifications d)\<rparr>"

definition User_delete :: "db \<Rightarrow> pk \<Rightarrow> db" where
  "User_delete d k =
     (let d1 = d\<lparr>users := filter (\<lambda>u. u_id u \<noteq> k) (users d),
                 profiles := filter (\<lambda>p. up_user p \<noteq> k) (profiles d)\<rparr>;
          d2 = fold (\<lambda>s acc. Student_delete acc (s_id s))
                 (filter (\<lambda>s. s_user s = Some k) (students d)) d1
      in fold (\<lambda>s acc. Staff_delete acc (sf_id s))
           (filter (\<lambda>s. sf_user s = Some k) (staffs d)) d2)"

text \<open>
  The states the user code can reach: from the empty database by saving users, by the
  serializer's \<open>create\<close>, by deleting users, and by any other operation, none of which
  writes the \<open>User\<close> or \<open>UserProfile\<close> tables.
\<close>

inductive reachable_users :: "db \<Rightarrow> bool" where
  ru_init: "reachable_users empty_db"
| ru_save: "reachable_users d \<Longrightarrow> reachable_users (fst (User_save d key u))"
| ru_serializer: "reachable_users d \<Longrightarrow> reachable_users (fst (UserCreateSerializer_create hash d vd))"
| ru_delete: "reachable_users d \<Longrightarrow> reachable_users (User_delete d k)"
| ru_other: "reachable_users d \<Longrightarrow> users d' = users d \<Longrightarrow> profiles d' = profiles d \<Longrightarrow>
     reachable_users d'"

definition profiles_for :: "db \<Rightarrow> pk \<Rightarrow> userprofile list" where
  "profiles_for d k = filter (\<lambda>p. up_user p = k) (profiles d)"

definition role_for :: "user \<Rightarrow> string" where
  "role_for u = (if is_superuser u then ''Admin'' else if is_staff u then ''Staff'' else ''Student'')"

text \<open>
  The invariant behind the one profile per user: user keys are distinct, no two profiles
  share a user, and the users that have a profile are the users of the table.
\<close>

definition users_inv :: "db \<Rightarrow> bool" where
  "users_inv d \<longleftrightarrow> distinct (map u_id (users d)) \<and> distinct (map up_user (profiles d)) \<and>
     set (map up_user (profiles d)) = set (map u_id (users d))"

subsection \<open>Sample data\<close>

definition alice :: user where
  "alice = \<lparr>u_id = 0, username = ''alice'', email = ''alice@example.org'', first_name = ''Alice'',
     last_name = ''A'', password = ''pw'', is_staff = True, is_superuser = False\<rparr>"

definition bob :: user where
  "bob = \<lparr>u_id = 0, username = ''bob'', email = ''bob@example.org'', first_name = ''Bob'',
     last_name = ''B'', password = ''pw'', is_staff = False, is_superuser = False\<rparr>"

definition db_alice :: db where
  "db_alice = empty_db\<lparr>users := [alice\<lparr>u_id := 1\<rparr>],
     profiles := [\<lparr>up_id = 1, up_user = 1, role = ''Staff''\<rparr>]\<rparr>"

section \<open>Notifications on save (app/signals.py)\<close>

text \<open>
  The receivers are taken as connected to \<open>post_save\<close>, as their \<open>@receiver\<close> decorators
  declare. Each takes the instance just written and the flag \<open>created\<close>, and returns the
  database it leaves or the exception it raises.
\<close>

text \<open>
  Following a foreign key from an instance (\<open>instance.student\<close>, \<open>instance.course\<close>, ...)
  reads the row with that key and raises \<open>DoesNotExist\<close> when there is none.
\<close>

definition get_student :: "db \<Rightarrow> pk \<Rightarrow> student option" where
  "get_student d k = find (\<lambda>s. s_id s = k) (students d)"

definition get_program :: "db \<Rightarrow> pk \<Rightarrow> program option" where
  "get_program d k = find (\<lambda>p. pg_id p = k) (programs d)"

definition get_course :: "db \<Rightarrow> pk \<Rightarrow> course option" where
  "get_course d k = find (\<lambda>c. c_id c = k) (courses d)"

definition get_exam :: "db \<Rightarrow> pk \<Rightarrow> exam option" where
  "get_exam d k = find (\<lambda>x. ex_id x = k) (exams d)"

definition get_department :: "db \<Rightarrow> pk \<Rightarrow> department option" where
  "get_department d k = find (\<lambda>p. dp_id p = k) (departments d)"

text \<open>
  \<^verbatim>\<open>Notification.objects.create(...)\<close>: the row gets the next key and, through
  \<open>auto_now_add\<close>, the current instant. The arguments are the two recipients, \<open>notif_type\<close>,
  \<open>title\<close>, \<open>message\<close>, \<open>read\<close> and \<open>auto_resolved\<close> (both \<open>False\<close> when the caller gives
  none). Every caller passes recipients it has just read from the database.
\<close>

definition Notification_objects_create ::
    "env \<Rightarrow> db \<Rightarrow> pk option \<Rightarrow> pk option \<Rightarrow> string \<Rightarrow> string \<Rightarrow> string \<Rightarrow> bool \<Rightarrow> bool \<Rightarrow> db" where
  "Notification_objects_create e d rs rf ty ti msg rd ar =
     d\<lparr>notifications := notifications d @
        [\<lparr>n_id = next_pk (map n_id (notifications d)), recipient_student = rs,
          recipient_staff = rf, notif_type = ty, title = ti, message = msg,
          created_at = now e, read = rd, auto_resolved = ar\<rparr>]\<rparr>"

text \<open>\<^verbatim>\<open>create_admission_notification\<close> (signals.py, lines 18-30).\<close>

definition create_admission_notification :: "env \<Rightarrow> db \<Rightarrow> admission \<Rightarrow> bool \<Rightarrow> error + db" where
  "create_admission_notification e d instance created =
     (let ty = (if created then ''Admission'' else ''Admission Update'') in
      case get_student d (ad_student instance) of
        None \<Rightarrow> Inl DoesNotExist
      | Some s \<Rightarrow>
          (case get_program d (ad_program instance) of
             None \<Rightarrow> Inl DoesNotExist
           | Some p \<Rightarrow>
               Inr (Notification_objects_create e d (Some (s_id s)) None ty
                 (''Admission '' @ (if created then ''Created'' else ''Updated''))
                 (''Your admission for '' @ pg_name p @ '' has been '' @
                    (if created then ''created'' else ''updated'') @
                    '' with status '' @ ad_status instance @ ''.'')
                 False False)))"

text \<open>\<^verbatim>\<open>create_enrollment_notification\<close> (signals.py, lines 36-48).\<close>

definition create_enrollment_notification :: "env \<Rightarrow> db \<Rightarrow> enrollment \<Rightarrow> bool \<Rightarrow> error + db" where
  "create_enrollment_notification e d instance created =
     (if created then
        (case get_student d (en_student instance) of
           None \<Rightarrow> Inl DoesNotExist
         | Some s \<Rightarrow>
             (case get_course d (en_course instance) of
                None \<Rightarrow> Inl DoesNotExist
              | Some c \<Rightarrow>
                  Inr (Notification_objects_create e d (Some (s_id s)) None ''Enrollment''
                    ''Course Enrollment Successful''
                    (''You have been enrolled in '' @ c_code c @ '' for Semester '' @
                       str_nat e (en_semester instance) @ '' ('' @
                       str_nat e (en_year instance) @ '').'')
                    False False)))
      else Inr d)"

text \<open>\<^verbatim>\<open>create_fee_notification\<close> (signals.py, lines 54-88).\<close>

definition create_fee_notification :: "env \<Rightarrow> db \<Rightarrow> fee \<Rightarrow> bool \<Rightarrow> error + db" where
  "create_fee_notification e d instance created =
     (if created \<and> \<not> is_paid instance then
        (case get_student d (fe_student instance) of
           None \<Rightarrow> Inl DoesNotExist
         | Some s \<Rightarrow>
             Inr (Notification_objects_create e d (Some (s_id s)) None ''Fee'' ''New Fee Assigned''
               (''A new fee of '' @ str_decimal e (amount instance) @ '' is due on '' @
                  str_date e (due_date instance) @ ''.'')
               False False))
      else if \<not> created \<and> \<not> is_paid instance \<and> due_date instance < today e then
        (case get_student d (fe_student instance) of
           None \<Rightarrow> Inl DoesNotExist
         | Some s \<Rightarrow>
             Inr (Notification_objects_create e d (Some (s_id s)) None ''Fee'' ''Fee Overdue''
               (''Your fee of '' @ str_decimal e (amount instance) @ '' is overdue!'')
               False False))
      else if \<not> created \<and> is_paid instance then
        (case get_student d (fe_student instance) of
           None \<Rightarrow> Inl DoesNotExist
         | Some s \<Rightarrow>
             (let d1 = d\<lparr>notifications :=
                    map (\<lambda>n. if recipient_student n = Some (s_id s) \<and> notif_type n = ''Fee'' \<and> \<not> read n
                              then n\<lparr>read := True, auto_resolved := True\<rparr> else n)
                      (notifications d)\<rparr>
              in Inr (Notification_objects_create e d1 (Some (s_id s)) None ''Fee'' ''Fee Paid''
                   (''Your fee of '' @ str_decimal e (amount instance) @ '' has been paid.'')
                   True True)))
      else Inr d)"

text \<open>
  \<^verbatim>\<open>create_exam_notification\<close> (signals.py, lines 94-108). The queryset
  \<open>instance.course.program.students.all()\<close> is read once; the loop creates one row per
  student of it.
\<close>

fun exam_notify_loop :: "env \<Rightarrow> exam \<Rightarrow> course \<Rightarrow> student list \<Rightarrow> db \<Rightarrow> db" where
  "exam_notify_loop e instance c [] d = d"
| "exam_notify_loop e instance c (s # ss) d =
     exam_notify_loop e instance c ss
       (Notification_objects_create e d (Some (s_id s)) None ''Exam'' ''New Exam Scheduled''
          (''The '' @ exam_type instance @ '' exam for '' @ c_title c @ '' is scheduled on '' @
             str_date e (ex_date instance) @ ''.'')
          False False)"

definition create_exam_notification :: "env \<Rightarrow> db \<Rightarrow> exam \<Rightarrow> bool \<Rightarrow> error + db" where
  "create_exam_notification e d instance created =
     (if created then
        (case get_course d (ex_course instance) of
           None \<Rightarrow> Inl DoesNotExist
         | Some c \<Rightarrow>
             (case get_program d (c_program c) of
                None \<Rightarrow> Inl DoesNotExist
              | Some p \<Rightarrow>
                  Inr (exam_notify_loop e instance c
                         (filter (\<lambda>s. s_program s = pg_id p) (students d)) d)))
      else Inr d)"

text \<open>\<^verbatim>\<open>create_attendance_notification\<close> (signals.py, lines 114-126).\<close>

definition create_attendance_notification :: "env \<Rightarrow> db \<Rightarrow> attendance \<Rightarrow> bool \<Rightarrow> error + db" where
  "create_attendance_notification e d instance created =
     (if created then
        (case get_student d (at_student instance) of
           None \<Rightarrow> Inl DoesNotExist
         | Some s \<Rightarrow>
             (case get_course d (at_course instance) of
                None \<Rightarrow> Inl DoesNotExist
              | Some c \<Rightarrow>
                  Inr (Notification_objects_create e d (Some (s_id s)) None ''Attendance''
                    ''Attendance Recorded''
                    (''Your attendance for '' @ c_code c @ '' on '' @
                       str_date e (at_date instance) @ '' has been marked as '' @
                       at_status instance @ ''.'')
                    False False)))
      else Inr d)"

text \<open>\<^verbatim>\<open>create_grade_notification\<close> (signals.py, lines 132-143).\<close>

definition create_grade_notification :: "env \<Rightarrow> db \<Rightarrow> grade \<Rightarrow> bool \<Rightarrow> error + db" where
  "create_grade_notification e d instance created =
     (if created then
        (case get_student d (gr_student instance) of
           None \<Rightarrow> Inl DoesNotExist
         | Some s \<Rightarrow>
             (case get_exam d (gr_exam instance) of
                None \<Rightarrow> Inl DoesNotExist
              | Some x \<Rightarrow>
                  (case get_course d (ex_course x) of
                     None \<Rightarrow> Inl DoesNotExist
                   | Some c \<Rightarrow>
                       Inr (Notification_objects_create e d (Some (s_id s)) None ''Grade''
                         (exam_type x @ '' Exam Results'')
                         (''You scored '' @ str_decimal e (obtained_marks instance) @ '' in '' @
                            c_title c @ ''.'')
                         False False))))
      else Inr d)"

text \<open>\<^verbatim>\<open>create_staff_notification\<close> (signals.py, lines 149-168).\<close>

definition create_staff_notification :: "env \<Rightarrow> db \<Rightarrow> staff \<Rightarrow> bool \<Rightarrow> error + db" where
  "create_staff_notification e d instance created =
     (if created then
        (case (case sf_department instance of
                 None \<Rightarrow> Inr ''the institution''
               | Some k \<Rightarrow>
                   (case get_department d k of
                      None \<Rightarrow> Inl DoesNotExist
                    | Some dp \<Rightarrow> Inr (dp_name dp))) of
           Inl err \<Rightarrow> Inl err
         | Inr place \<Rightarrow>
             Inr (Notification_objects_create e d None (Some (sf_id instance)) ''Staff''
               ''Welcome to Staff''
               (''Welcome '' @ sf_full_name instance @ '' to '' @ place @ ''.'')
               False False))
      else
        Inr (Notification_objects_create e d None (Some (sf_id instance)) ''Staff''
          ''Staff Record Updated'' ''Your staff record has been updated.'' False False))"

subsection \<open>A sample school\<close>

definition env0 :: env where
  "env0 = \<lparr>now = 1700000000, today = 19676, midnight = (\<lambda>dt. dt * 86400 - 18000),
     str_date = (\<lambda>_. ''2023-11-15''),
     str_decimal = (\<lambda>_. ''100.00''), str_nat = (\<lambda>_. ''1'')\<rparr>"

definition mk_user :: "pk \<Rightarrow> string \<Rightarrow> bool \<Rightarrow> user" where
  "mk_user k n st = \<lparr>u_id = k, username = n, email = n @ ''@example.org'', first_name = n,
     last_name = ''X'', password = ''pw'', is_staff = st, is_superuser = False\<rparr>"

definition mk_student :: "pk \<Rightarrow> string \<Rightarrow> pk \<Rightarrow> pk \<Rightarrow> student" where
  "mk_student k n u p = \<lparr>s_id = k, registration_no = ''R-'' @ n, s_user = Some u, s_full_name = n,
     gender = ''Other'', dob = 11000, s_email = n @ ''@example.org'', s_phone = ''555-'' @ n,
     address = ''Campus'', s_program = p, enrollment_year = 2023, s_is_active = True\<rparr>"

definition db_school :: db where
  "db_school = empty_db\<lparr>
     users := [mk_user 1 ''alice'' True, mk_user 2 ''bob'' False, mk_user 3 ''carol'' False,
               mk_user 4 ''dave'' False],
     profiles := [\<lparr>up_id = 1, up_user = 1, role = ''Staff''\<rparr>,
                  \<lparr>up_id = 2, up_user = 2, role = ''Student''\<rparr>,
                  \<lparr>up_id = 3, up_user = 3, role = ''Student''\<rparr>,
                  \<lparr>up_id = 4, up_user = 4, role = ''Student''\<rparr>],
     departments := [\<lparr>dp_id = 1, dp_name = ''Computing'', dp_code = ''CS'',
                      dp_description = None, hod = None\<rparr>],
     programs := [\<lparr>pg_id = 1, program_number = 1, pg_name = ''Computer Science'', pg_code = ''BSCS'',
                    program_type = ''BS'', pg_department = 1, duration_years = 4,
                    pg_description = None\<rparr>,
                  \<lparr>pg_id = 2, program_number = 2, pg_name = ''Data Science'', pg_code = ''MSDS'',
                    program_type = ''MS'', pg_department = 1, duration_years = 2,
                    pg_description = None\<rparr>],
     courses := [\<lparr>c_id = 1, c_code = ''CS101'', c_title = ''Programming'', credit_hours = 30,
                   c_semester = 1, c_program = 1\<rparr>],
     students := [mk_student 1 ''bob'' 2 1, mk_student 2 ''carol'' 3 1, mk_student 3 ''dave'' 4 2],
     staffs := [\<lparr>sf_id = 1, sf_user = Some 1, sf_full_name = ''alice'', staff_type = ''Teaching'',
                  designation = None, sf_department = Some 1, sf_email = ''alice@example.org'',
                  sf_phone = ''555-alice'', date_joined = 19000, sf_is_active = True\<rparr>]\<rparr>"

text \<open>The number of notification rows after a receiver has run, \<open>None\<close> when it raised.\<close>

definition notif_count :: "error + db \<Rightarrow> nat option" where
  "notif_count r = (case r of Inl _ \<Rightarrow> None | Inr d \<Rightarrow> Some (length (notifications d)))"

definition exam1 :: exam where
  "exam1 = \<lparr>ex_id = 1, ex_course = 1, exam_type = ''Midterm'', ex_date = 19700, total_marks = 100\<rparr>"

definition enrollment1 :: enrollment where
  "enrollment1 = \<lparr>en_id = 1, en_student = 1, en_course = 1, en_semester = 1, en_year = 2023,
     date_enrolled = 19600\<rparr>"

definition attendance1 :: attendance where
  "attendance1 = \<lparr>at_id = 1, at_student = 1, at_course = 1, at_date = 19650, at_status = ''Present''\<rparr>"

definition admission1 :: admission where
  "admission1 = \<lparr>ad_id = 1, ad_student = 1, ad_program = 1, admission_date = 19500,
     ad_status = ''Pending''\<rparr>"

definition grade1 :: grade where
  "grade1 = \<lparr>gr_id = 1, gr_student = 1, gr_exam = 1, obtained_marks = 8550\<rparr>"

definition fee1 :: fee where
  "fee1 = \<lparr>fe_id = 1, fe_student = 1, amount = 10000, due_date = 19700, is_paid = False,
     payment_date = None\<rparr>"

definition staff1 :: staff where
  "staff1 = \<lparr>sf_id = 1, sf_user = Some 1, sf_full_name = ''alice'', staff_type = ''Teaching'',
     designation = None, sf_department = Some 1, sf_email = ''alice@example.org'',
     sf_phone = ''555-alice'', date_joined = 19000, sf_is_active = True\<rparr>"

definition mk_notification :: "pk \<Rightarrow> pk \<Rightarrow> string \<Rightarrow> bool \<Rightarrow> notification" where
  "mk_notification k sid ty rd = \<lparr>n_id = k, recipient_student = Some sid, recipient_staff = None,
     notif_type = ty, title = ''T'', message = ''M'', created_at = 1690000000, read = rd,
     auto_resolved = False\<rparr>"

definition db_fees :: db where
  "db_fees = db_school\<lparr>exams := [exam1], fees := [fee1],
     notifications := [mk_notification 1 1 ''Fee'' False, mk_notification 2 1 ''Fee'' True,
                       mk_notification 3 1 ''Exam'' False, mk_notification 4 2 ''Fee'' False]\<rparr>"

section \<open>Views (app/views.py)\<close>

datatype 'b response = Response (status: nat) (body: 'b)

text \<open>
  The class attribute \<open>queryset\<close> of \<open>StudentViewSet\<close>:
  \<^verbatim>\<open>Student.objects.all().order_by("-id")\<close>, the rows by descending key.
\<close>

definition StudentViewSet_queryset :: "db \<Rightarrow> student list" where
  "StudentViewSet_queryset d = sort_key (\<lambda>s. - int (s_id s)) (students d)"

text \<open>
  \<^verbatim>\<open>StudentViewSet.get_queryset\<close> (views.py, lines 157-164). The permission classes
  admit authenticated users only, so \<open>self.request.user\<close> is a \<open>User\<close> row.
\<close>

definition StudentViewSet_get_queryset :: "db \<Rightarrow> user \<Rightarrow> error + student list" where
  "StudentViewSet_get_queryset d usr =
     (case profile_of d usr of
        None \<Rightarrow> Inl RelatedObjectDoesNotExist
      | Some p \<Rightarrow>
          (if role p = ''Student'' then Inr (filter (\<lambda>s. s_user s = Some (u_id usr)) (students d))
           else if role p = ''Staff'' then Inr (students d)
           else Inr (StudentViewSet_queryset d)))"

subsection \<open>The dashboard\<close>

text \<open>
  \<open>now().date()\<close> is the UTC date of the instant (\<open>USE_TZ = True\<close>). Python's \<open>date\<close>
  ranges from 0001-01-01 to 9999-12-31, and adding a \<open>timedelta\<close> that leaves the range
  raises \<open>OverflowError\<close>.
\<close>

definition utc_date :: "datetime \<Rightarrow> date" where
  "utc_date t = t div 86400"

definition date_min :: date where
  "date_min = - 719162"

definition date_max :: date where
  "date_max = 2932896"

definition date_add :: "date \<Rightarrow> int \<Rightarrow> error + date" where
  "date_add dt n =
     (if date_min \<le> dt + n \<and> dt + n \<le> date_max then Inr (dt + n) else Inl OverflowError)"

text \<open>
  Year, month and day of a day number, by the usual civil-calendar arithmetic on
  400-year eras.
\<close>

definition civil :: "date \<Rightarrow> int \<times> int \<times> int" where
  "civil dt =
     (let z = dt + 719468;
          era = z div 146097;
          doe = z mod 146097;
          yoe = (doe - doe div 1460 + doe div 36524 - doe div 146096) div 365;
          doy = doe - (365 * yoe + yoe div 4 - yoe div 100);
          mp = (5 * doy + 2) div 153;
          dd = doy - (153 * mp + 2) div 5 + 1;
          mm = (if mp < 10 then mp + 3 else mp - 9)
      in (yoe + era * 400 + (if mm \<le> 2 then 1 else 0), mm, dd))"

definition day_of_month :: "date \<Rightarrow> int" where
  "day_of_month dt = snd (snd (civil dt))"

record query_params =
  qp_filter :: "string option"
  qp_start :: "string option"
  qp_end :: "string option"

text \<open>
  Lines 46-66 of \<open>DashboardAPIView.get\<close>: the range \<open>(start, end)\<close> of the request, or the
  exception raised on the way. \<open>strptime\<close> stands for
  \<^verbatim>\<open>datetime.strptime(s, "%Y-%m-%d").date()\<close>, \<open>None\<close> where it raises \<open>ValueError\<close>.
  An empty string is false in Python.
\<close>

definition truthy :: "string option \<Rightarrow> bool" where
  "truthy s = (case s of None \<Rightarrow> False | Some v \<Rightarrow> v \<noteq> [])"

definition date_range ::
    "(string \<Rightarrow> date option) \<Rightarrow> env \<Rightarrow> query_params \<Rightarrow> error + (date option \<times> date option)" where
  "date_range strptime e q =
     (if qp_filter q = Some ''today'' then
        (case date_add (utc_date (now e)) 1 of
           Inl err \<Rightarrow> Inl err
         | Inr en \<Rightarrow> Inr (Some (utc_date (now e)), Some en))
      else if qp_filter q = Some ''week'' then
        (case date_add (utc_date (now e)) (- 7) of
           Inl err \<Rightarrow> Inl err
         | Inr s \<Rightarrow>
             (case date_add (utc_date (now e)) 1 of
                Inl err \<Rightarrow> Inl err
              | Inr en \<Rightarrow> Inr (Some s, Some en)))
      else if qp_filter q = Some ''month'' then
        (case date_add (utc_date (now e)) 1 of
           Inl err \<Rightarrow> Inl err
         | Inr en \<Rightarrow>
             Inr (Some (utc_date (now e) - (day_of_month (utc_date (now e)) - 1)), Some en))
      else if qp_filter q = Some ''custom'' \<and> truthy (qp_start q) \<and> truthy (qp_end q) then
        (case strptime (the (qp_start q)) of
           None \<Rightarrow> Inl ValueError
         | Some s \<Rightarrow>
             (case strptime (the (qp_end q)) of
                None \<Rightarrow> Inl ValueError
              | Some en0 \<Rightarrow>
                  (case date_add en0 1 of
                     Inl err \<Rightarrow> Inl err
                   | Inr en \<Rightarrow> Inr (Some s, Some en))))
      else Inr (None, None))"

text \<open>
  \<open>date_filter\<close> (views.py, lines 68-71). \<open>attr\<close> is the model's \<open>created_at\<close> attribute,
  \<open>None\<close> for a model class that has none (\<open>hasattr\<close> is then false); of the nine models
  counted only \<open>Notification\<close> declares it. The two dates of \<open>created_at__range\<close> are
  compared as the instants of their midnights, both bounds included.
\<close>

definition date_filter ::
    "env \<Rightarrow> ('a \<Rightarrow> datetime) option \<Rightarrow> date option \<Rightarrow> date option \<Rightarrow> 'a list \<Rightarrow> 'a list" where
  "date_filter e attr start end rows =
     (case attr of
        None \<Rightarrow> rows
      | Some f \<Rightarrow>
          (case start of
             None \<Rightarrow> rows
           | Some s \<Rightarrow>
               (case end of
                  None \<Rightarrow> rows
                | Some en \<Rightarrow> filter (\<lambda>r. midnight e s \<le> f r \<and> f r \<le> midnight e en) rows)))"

record dashboard =
  total_students :: nat
  total_staff :: nat
  total_admissions :: nat
  total_enrollments :: nat
  total_attendance :: nat
  total_exams :: nat
  total_grades :: nat
  total_fees :: nat
  total_notifications :: nat
  filter_type :: string
  start_date :: "string option"
  end_date :: "string option"

datatype dashboard_body = Data dashboard | Error string

text \<open>
  \<^verbatim>\<open>DashboardAPIView.get\<close> (views.py, lines 45-89). Only \<open>ValueError\<close> is caught and
  answered with 400; any other exception escapes.
\<close>

definition DashboardAPIView_get ::
    "(string \<Rightarrow> date option) \<Rightarrow> env \<Rightarrow> db \<Rightarrow> query_params \<Rightarrow> dashboard_body response outcome" where
  "DashboardAPIView_get strptime e d q =
     (case date_range strptime e q of
        Inl err \<Rightarrow>
          (if err = ValueError
           then Returned (Response 400 (Error ''Invalid date format. Use YYYY-MM-DD.''))
           else Raised err)
      | Inr (start, end) \<Rightarrow>
          Returned (Response 200 (Data
            \<lparr>total_students = length (date_filter e None start end (students d)),
             total_staff = length (date_filter e None start end (staffs d)),
             total_admissions = length (date_filter e None start end (admissions d)),
             total_enrollments = length (date_filter e None start end (enrollments d)),
             total_attendance = length (date_filter e None start end (attendances d)),
             total_exams = length (date_filter e None start end (exams d)),
             total_grades = length (date_filter e None start end (grades d)),
             total_fees = length (date_filter e None start end (fees d)),
             total_notifications =
               length (date_filter e (Some created_at) start end (notifications d)),
             filter_type = (if truthy (qp_filter q) then the (qp_filter q) else ''all''),
             start_date = map_option (str_date e) start,
             end_date = map_option (str_date e) end\<rparr>)))"



definition db_school2 :: db where
  "db_school2 = db_school\<lparr>students := [mk_student 3 ''dave'' 4 1, mk_student 1 ''bob'' 2 1]\<rparr>"


section \<open>Serializers and the write paths (app/serializers.py, app/views.py)\<close>

subsection \<open>Enrollment and attendance\<close>

text \<open>
  The columns of \<open>Meta.unique_together\<close> (models.py, lines 260-261 and 283-284).
\<close>

definition enrollment_key :: "enrollment \<Rightarrow> pk \<times> pk \<times> nat \<times> nat" where
  "enrollment_key x = (en_student x, en_course x, en_semester x, en_year x)"

definition attendance_key :: "attendance \<Rightarrow> pk \<times> pk \<times> date" where
  "attendance_key x = (at_student x, at_course x, at_date x)"

text \<open>
  \<^verbatim>\<open>Enrollment.objects.create(**data)\<close>: the database refuses a row that repeats the
  unique columns of another or points at a missing student or course; \<open>date_enrolled\<close> is
  set by \<open>auto_now_add\<close>; the \<open>post_save\<close> receiver runs after the row is written. The
  key and \<open>date_enrolled\<close> of the argument are not used.
\<close>

definition Enrollment_objects_create ::
    "env \<Rightarrow> db \<Rightarrow> enrollment \<Rightarrow> db \<times> (error + enrollment)" where
  "Enrollment_objects_create e d x =
     (if list_ex (\<lambda>y. enrollment_key y = enrollment_key x) (enrollments d)
         \<or> get_student d (en_student x) = None \<or> get_course d (en_course x) = None
      then (d, Inl IntegrityError)
      else
        (let row = x\<lparr>en_id := next_pk (map en_id (enrollments d)), date_enrolled := today e\<rparr>;
             d1 = d\<lparr>enrollments := enrollments d @ [row]\<rparr>
         in case create_enrollment_notification e d1 row True of
              Inl err \<Rightarrow> (d1, Inl err)
            | Inr d2 \<Rightarrow> (d2, Inr row)))"

text \<open>
  \<open>instance.save()\<close> on an existing enrollment: an \<open>UPDATE\<close> of the row with the
  instance's key, refused when it would repeat the unique columns of another row.
\<close>

definition Enrollment_save :: "env \<Rightarrow> db \<Rightarrow> enrollment \<Rightarrow> db \<times> (error + enrollment)" where
  "Enrollment_save e d x =
     (if \<not> list_ex (\<lambda>y. en_id y = en_id x) (enrollments d) then (d, Inl DoesNotExist)
      else if list_ex (\<lambda>y. enrollment_key y = enrollment_key x \<and> en_id y \<noteq> en_id x) (enrollments d)
              \<or> get_student d (en_student x) = None \<or> get_course d (en_course x) = None
      then (d, Inl IntegrityError)
      else
        (let d1 = d\<lparr>enrollments := map (\<lambda>y. if en_id y = en_id x then x else y) (enrollments d)\<rparr>
         in case create_enrollment_notification e d1 x False of
              Inl err \<Rightarrow> (d1, Inl err)
            | Inr d2 \<Rightarrow> (d2, Inr x)))"

text \<open>
  \<^verbatim>\<open>EnrollmentSerializer.validate\<close> (serializers.py, lines 202-209).
\<close>

definition EnrollmentSerializer_validate :: "db \<Rightarrow> enrollment \<Rightarrow> error + enrollment" where
  "EnrollmentSerializer_validate d data =
     (if list_ex (\<lambda>y. en_student y = en_student data \<and> en_course y = en_course data \<and>
                        en_semester y = en_semester data \<and> en_year y = en_year data) (enrollments d)
      then Inl ValidationError
      else Inr data)"

text \<open>
  \<open>serializer.is_valid()\<close>: the two \<open>PrimaryKeyRelatedField\<close>s look their key up in
  \<open>Student.objects.all()\<close> and \<open>Course.objects.all()\<close>, then \<open>validate\<close> runs.
\<close>

definition EnrollmentSerializer_run_validation :: "db \<Rightarrow> enrollment \<Rightarrow> error + enrollment" where
  "EnrollmentSerializer_run_validation d data =
     (if get_student d (en_student data) = None \<or> get_course d (en_course data) = None
      then Inl ValidationError
      else EnrollmentSerializer_validate d data)"

text \<open>
  \<open>EnrollmentViewSet.create\<close>, the \<open>POST\<close> of the \<open>ModelViewSet\<close>: a validation error is
  the response 400, otherwise the row is created and returned with 201. The result is the
  database left behind and the response, or the exception that escaped.
\<close>

definition EnrollmentViewSet_create ::
    "env \<Rightarrow> db \<Rightarrow> enrollment \<Rightarrow> db \<times> (error + enrollment) response outcome" where
  "EnrollmentViewSet_create e d data =
     (case EnrollmentSerializer_run_validation d data of
        Inl err \<Rightarrow> (d, Returned (Response 400 (Inl err)))
      | Inr vd \<Rightarrow>
          (case Enrollment_objects_create e d vd of
             (d1, Inl err) \<Rightarrow> (d1, Raised err)
           | (d1, Inr row) \<Rightarrow> (d1, Returned (Response 201 (Inr row)))))"

text \<open>
  \<open>EnrollmentViewSet.update\<close>, the \<open>PUT\<close> on the row with key \<open>k\<close>: 404 when there is no
  such row; \<open>validate\<close> runs on the new values as it does for a creation, then the row is
  saved with them.
\<close>

definition EnrollmentViewSet_update ::
    "env \<Rightarrow> db \<Rightarrow> pk \<Rightarrow> enrollment \<Rightarrow> db \<times> (error + enrollment) response outcome" where
  "EnrollmentViewSet_update e d k data =
     (case find (\<lambda>y. en_id y = k) (enrollments d) of
        None \<Rightarrow> (d, Returned (Response 404 (Inl DoesNotExist)))
      | Some old \<Rightarrow>
          (case EnrollmentSerializer_run_validation d data of
             Inl err \<Rightarrow> (d, Returned (Response 400 (Inl err)))
           | Inr vd \<Rightarrow>
               (case Enrollment_save e d (vd\<lparr>en_id := k, date_enrolled := date_enrolled old\<rparr>) of
                  (d1, Inl err) \<Rightarrow> (d1, Raised err)
                | (d1, Inr row) \<Rightarrow> (d1, Returned (Response 200 (Inr row))))))"

text \<open>The same four operations for \<open>Attendance\<close>; \<open>status\<close> is a field with choices.\<close>

definition Attendance_objects_create ::
    "env \<Rightarrow> db \<Rightarrow> attendance \<Rightarrow> db \<times> (error + attendance)" where
  "Attendance_objects_create e d x =
     (if list_ex (\<lambda>y. attendance_key y = attendance_key x) (attendances d)
         \<or> get_student d (at_student x) = None \<or> get_course d (at_course x) = None
      then (d, Inl IntegrityError)
      else
        (let row = x\<lparr>at_id := next_pk (map at_id (attendances d))\<rparr>;
             d1 = d\<lparr>attendances := attendances d @ [row]\<rparr>
         in case create_attendance_notification e d1 row True of
              Inl err \<Rightarrow> (d1, Inl err)
            | Inr d2 \<Rightarrow> (d2, Inr row)))"

definition Attendance_save :: "env \<Rightarrow> db \<Rightarrow> attendance \<Rightarrow> db \<times> (error + attendance)" where
  "Attendance_save e d x =
     (if \<not> list_ex (\<lambda>y. at_id y = at_id x) (attendances d) then (d, Inl DoesNotExist)
      else if list_ex (\<lambda>y. attendance_key y = attendance_key x \<and> at_id y \<noteq> at_id x) (attendances d)
              \<or> get_student d (at_student x) = None \<or> get_course d (at_course x) = None
      then (d, Inl IntegrityError)
      else
        (let d1 = d\<lparr>attendances := map (\<lambda>y. if at_id y = at_id x then x else y) (attendances d)\<rparr>
         in case create_attendance_notification e d1 x False of
              Inl err \<Rightarrow> (d1, Inl err)
            | Inr d2 \<Rightarrow> (d2, Inr x)))"

text \<open>\<^verbatim>\<open>AttendanceSerializer.validate\<close> (serializers.py, lines 225-231).\<close>

definition AttendanceSerializer_validate :: "db \<Rightarrow> attendance \<Rightarrow> error + attendance" where
  "AttendanceSerializer_validate d data =
     (if list_ex (\<lambda>y. at_student y = at_student data \<and> at_course y = at_course data \<and>
                        at_date y = at_date data) (attendances d)
      then Inl ValidationError
      else Inr data)"

definition AttendanceSerializer_run_validation :: "db \<Rightarrow> attendance \<Rightarrow> error + attendance" where
  "AttendanceSerializer_run_validation d data =
     (if get_student d (at_student data) = None \<or> get_course d (at_course data) = None
         \<or> at_status data \<notin> set [''Present'', ''Absent'', ''Leave'']
      then Inl ValidationError
      else AttendanceSerializer_validate d data)"

definition AttendanceViewSet_create ::
    "env \<Rightarrow> db \<Rightarrow> attendance \<Rightarrow> db \<times> (error + attendance) response outcome" where
  "AttendanceViewSet_create e d data =
     (case AttendanceSerializer_run_validation d data of
        Inl err \<Rightarrow> (d, Returned (Response 400 (Inl err)))
      | Inr vd \<Rightarrow>
          (case Attendance_objects_create e d vd of
             (d1, Inl err) \<Rightarrow> (d1, Raised err)
           | (d1, Inr row) \<Rightarrow> (d1, Returned (Response 201 (Inr row)))))"

definition AttendanceViewSet_update ::
    "env \<Rightarrow> db \<Rightarrow> pk \<Rightarrow> attendance \<Rightarrow> db \<times> (error + attendance) response outcome" where
  "AttendanceViewSet_update e d k data =
     (case find (\<lambda>y. at_id y = k) (attendances d) of
        None \<Rightarrow> (d, Returned (Response 404 (Inl DoesNotExist)))
      | Some old \<Rightarrow>
          (case AttendanceSerializer_run_validation d data of
             Inl err \<Rightarrow> (d, Returned (Response 400 (Inl err)))
           | Inr vd \<Rightarrow>
               (case Attendance_save e d (vd\<lparr>at_id := k\<rparr>) of
                  (d1, Inl err) \<Rightarrow> (d1, Raised err)
                | (d1, Inr row) \<Rightarrow> (d1, Returned (Response 200 (Inr row))))))"

text \<open>
  The states reachable by the operations that write the two tables: creating and saving
  rows through the ORM, the \<open>POST\<close> and \<open>PUT\<close> of the two viewsets, deleting rows (by
  \<open>DELETE\<close> or by a cascade), and any operation that leaves both tables alone.
\<close>

inductive reachable_rows :: "db \<Rightarrow> bool" where
  rr_init: "reachable_rows empty_db"
| rr_other: "reachable_rows d \<Longrightarrow> enrollments d' = enrollments d \<Longrightarrow>
     attendances d' = attendances d \<Longrightarrow> reachable_rows d'"
| rr_delete: "reachable_rows d \<Longrightarrow>
     reachable_rows (d\<lparr>enrollments := filter P (enrollments d),
                       attendances := filter Q (attendances d)\<rparr>)"
| rr_en_create: "reachable_rows d \<Longrightarrow> reachable_rows (fst (Enrollment_objects_create e d x))"
| rr_en_save: "reachable_rows d \<Longrightarrow> reachable_rows (fst (Enrollment_save e d x))"
| rr_en_post: "reachable_rows d \<Longrightarrow> reachable_rows (fst (EnrollmentViewSet_create e d x))"
| rr_en_put: "reachable_rows d \<Longrightarrow> reachable_rows (fst (EnrollmentViewSet_update e d k x))"
| rr_at_create: "reachable_rows d \<Longrightarrow> reachable_rows (fst (Attendance_objects_create e d a))"
| rr_at_save: "reachable_rows d \<Longrightarrow> reachable_rows (fst (Attendance_save e d a))"
| rr_at_post: "reachable_rows d \<Longrightarrow> reachable_rows (fst (AttendanceViewSet_create e d a))"
| rr_at_put: "reachable_rows d \<Longrightarrow> reachable_rows (fst (AttendanceViewSet_update e d k a))"

definition unique_rows :: "db \<Rightarrow> bool" where
  "unique_rows d \<longleftrightarrow> distinct (map enrollment_key (enrollments d)) \<and>
     distinct (map attendance_key (attendances d))"

text \<open>Keys are distinct as well, which the proof of uniqueness needs for updates.\<close>

definition rows_inv :: "db \<Rightarrow> bool" where
  "rows_inv d \<longleftrightarrow> distinct (map en_id (enrollments d)) \<and> distinct (map at_id (attendances d)) \<and>
     unique_rows d"

definition db_enrolled :: db where
  "db_enrolled = fst (AttendanceViewSet_create env0
                        (fst (EnrollmentViewSet_create env0 db_school enrollment1)) attendance1)"

subsection \<open>Notifications through the API\<close>

definition get_staff :: "db \<Rightarrow> pk \<Rightarrow> staff option" where
  "get_staff d k = find (\<lambda>s. sf_id s = k) (staffs d)"

text \<open>
  The writable fields of \<open>NotificationSerializer\<close> (serializers.py, lines 277-294). The two
  recipients are declared with \<open>required=False\<close>, and \<open>read\<close> and \<open>auto_resolved\<close> have model
  defaults: \<open>None\<close> is a field the request leaves out.
\<close>

record notification_data =
  recipient_student_id :: "pk option"
  recipient_staff_id :: "pk option"
  nd_notif_type :: string
  nd_title :: string
  nd_message :: string
  nd_read :: "bool option"
  nd_auto_resolved :: "bool option"

text \<open>
  \<open>serializer.is_valid()\<close>: a recipient key that is given must name a row of
  \<open>Student.objects.all()\<close>, respectively \<open>Staff.objects.all()\<close>; the text fields are not
  blank and within \<open>max_length\<close>. The serializer declares no \<open>validate\<close> method and nothing
  relates the two recipients.
\<close>

definition NotificationSerializer_is_valid :: "db \<Rightarrow> notification_data \<Rightarrow> bool" where
  "NotificationSerializer_is_valid d data \<longleftrightarrow>
     (case recipient_student_id data of None \<Rightarrow> True | Some k \<Rightarrow> get_student d k \<noteq> None) \<and>
     (case recipient_staff_id data of None \<Rightarrow> True | Some k \<Rightarrow> get_staff d k \<noteq> None) \<and>
     nd_notif_type data \<noteq> [] \<and> length (nd_notif_type data) \<le> 50 \<and>
     nd_title data \<noteq> [] \<and> length (nd_title data) \<le> 150 \<and>
     nd_message data \<noteq> []"

text \<open>\<open>NotificationViewSet.create\<close>, the \<open>POST\<close> of the \<open>ModelViewSet\<close>.\<close>

definition NotificationViewSet_create ::
    "env \<Rightarrow> db \<Rightarrow> notification_data \<Rightarrow> db \<times> (error + notification) response" where
  "NotificationViewSet_create e d data =
     (if NotificationSerializer_is_valid d data then
        (let d1 = Notification_objects_create e d (recipient_student_id data)
                    (recipient_staff_id data) (nd_notif_type data) (nd_title data)
                    (nd_message data)
                    (case nd_read data of None \<Rightarrow> False | Some b \<Rightarrow> b)
                    (case nd_auto_resolved data of None \<Rightarrow> False | Some b \<Rightarrow> b)
         in (d1, Response 201 (Inr (last (notifications d1)))))
      else (d, Response 400 (Inl ValidationError)))"

text \<open>\<^verbatim>\<open>NotificationViewSet.mark_read\<close> (views.py, lines 287-292).\<close>

definition NotificationViewSet_mark_read :: "db \<Rightarrow> pk \<Rightarrow> db \<times> string response" where
  "NotificationViewSet_mark_read d k =
     (case find (\<lambda>n. n_id n = k) (notifications d) of
        None \<Rightarrow> (d, Response 404 ''Not found.'')
      | Some n \<Rightarrow>
          (d\<lparr>notifications := map (\<lambda>m. if n_id m = k then n\<lparr>read := True\<rparr> else m) (notifications d)\<rparr>,
           Response 200 ''Notification marked as read''))"

text \<open>
  The states of the \<open>Notification\<close> table: reached from the empty database by the seven
  receivers, by \<open>mark_read\<close>, by deleting rows, by operations that leave the table alone
  and, when \<open>api\<close> is set, by the \<open>POST\<close> of \<open>NotificationViewSet\<close>.
\<close>

inductive reachable_notifications :: "bool \<Rightarrow> db \<Rightarrow> bool" for api :: bool where
  rn_init: "reachable_notifications api empty_db"
| rn_other: "reachable_notifications api d \<Longrightarrow> notifications d' = notifications d \<Longrightarrow>
     reachable_notifications api d'"
| rn_delete: "reachable_notifications api d \<Longrightarrow>
     reachable_notifications api (d\<lparr>notifications := filter P (notifications d)\<rparr>)"
| rn_admission: "reachable_notifications api d \<Longrightarrow>
     create_admission_notification e d ad created = Inr d' \<Longrightarrow> reachable_notifications api d'"
| rn_enrollment: "reachable_notifications api d \<Longrightarrow>
     create_enrollment_notification e d en created = Inr d' \<Longrightarrow> reachable_notifications api d'"
| rn_fee: "reachable_notifications api d \<Longrightarrow>
     create_fee_notification e d fe created = Inr d' \<Longrightarrow> reachable_notifications api d'"
| rn_exam: "reachable_notifications api d \<Longrightarrow>
     create_exam_notification e d ex created = Inr d' \<Longrightarrow> reachable_notifications api d'"
| rn_attendance: "reachable_notifications api d \<Longrightarrow>
     create_attendance_notification e d at created = Inr d' \<Longrightarrow> reachable_notifications api d'"
| rn_grade: "reachable_notifications api d \<Longrightarrow>
     create_grade_notification e d gr created = Inr d' \<Longrightarrow> reachable_notifications api d'"
| rn_staff: "reachable_notifications api d \<Longrightarrow>
     create_staff_notification e d sf created = Inr d' \<Longrightarrow> reachable_notifications api d'"
| rn_mark_read: "reachable_notifications api d \<Longrightarrow>
     reachable_notifications api (fst (NotificationViewSet_mark_read d k))"
| rn_post: "api \<Longrightarrow> reachable_notifications api d \<Longrightarrow>
     reachable_notifications api (fst (NotificationViewSet_create e d data))"

definition one_recipient :: "notification \<Rightarrow> bool" where
  "one_recipient n \<longleftrightarrow> (recipient_student n = None) \<noteq> (recipient_staff n = None)"

definition at_most_one_recipient :: "notification \<Rightarrow> bool" where
  "at_most_one_recipient n \<longleftrightarrow> recipient_student n = None \<or> recipient_staff n = None"

definition both_recipients :: notification_data where
  "both_recipients = \<lparr>recipient_student_id = Some 1, recipient_staff_id = Some 1,
     nd_notif_type = ''Info'', nd_title = ''Hello'', nd_message = ''To both'',
     nd_read = None, nd_auto_resolved = None\<rparr>"

subsection \<open>Representations\<close>

text \<open>
  \<open>serializer.data\<close> is the representation of the rows, field by field in the order of
  \<open>Meta.fields\<close>; a field that raises ends it. With \<open>many=True\<close> the rows are represented
  one after the other.
\<close>

fun list_data :: "('a \<Rightarrow> error + 'r) \<Rightarrow> 'a list \<Rightarrow> error + 'r list" where
  "list_data f [] = Inr []"
| "list_data f (x # xs) =
     (case f x of
        Inl err \<Rightarrow> Inl err
      | Inr r \<Rightarrow>
          (case list_data f xs of
             Inl err \<Rightarrow> Inl err
           | Inr rs \<Rightarrow> Inr (r # rs)))"

text \<open>
  A \<open>HyperlinkedRelatedField\<close> renders a related row as the URL of its detail view, here
  the view name and the key. It asserts that the serializer context holds the request; a
  relation that is \<open>None\<close> and an empty list of relations are rendered without calling it.
  \<open>rq\<close> says whether the serializer was built with \<open>context={'request': request}\<close>.
\<close>

type_synonym hyperlink = "string \<times> pk"

definition hyperlink_to :: "bool \<Rightarrow> string \<Rightarrow> pk \<Rightarrow> error + hyperlink" where
  "hyperlink_to rq view_name k = (if rq then Inr (view_name, k) else Inl AssertionError)"

record user_repr =
  ur_id :: pk
  ur_username :: string
  ur_email :: string
  ur_first_name :: string
  ur_last_name :: string
  ur_is_staff :: bool
  ur_is_superuser :: bool

record department_repr =
  dr_id :: pk
  dr_name :: string
  dr_code :: string
  dr_description :: "string option"
  dr_hod :: "hyperlink option"
  dr_programs :: "hyperlink list"

record program_repr =
  pr_id :: pk
  pr_program_number :: nat
  pr_name :: string
  pr_code :: string
  pr_program_type :: string
  pr_duration_years :: nat
  pr_description :: "string option"
  pr_department :: department_repr
  pr_courses :: "hyperlink list"

record course_repr =
  cr_id :: pk
  cr_code :: string
  cr_title :: string
  cr_credit_hours :: decimal
  cr_semester :: nat
  cr_program :: program_repr

record student_repr =
  sr_id :: pk
  sr_registration_no :: string
  sr_user :: "user_repr option"
  sr_full_name :: string
  sr_gender :: string
  sr_dob :: date
  sr_email :: string
  sr_phone :: string
  sr_address :: string
  sr_program :: program_repr
  sr_enrollment_year :: nat
  sr_is_active :: bool
  sr_age :: int

text \<open>\<open>UserSerializer\<close> (serializers.py, lines 25-29).\<close>

definition UserSerializer_to_representation :: "user \<Rightarrow> user_repr" where
  "UserSerializer_to_representation u =
     \<lparr>ur_id = u_id u, ur_username = username u, ur_email = email u,
      ur_first_name = first_name u, ur_last_name = last_name u, ur_is_staff = is_staff u,
      ur_is_superuser = is_superuser u\<rparr>"

text \<open>
  \<open>DepartmentSerializer\<close> (serializers.py, lines 63-76): \<open>hod\<close> and \<open>programs\<close> are
  hyperlinks; the programs of a department come in the order of \<open>Program.Meta.ordering\<close>.
\<close>

definition DepartmentSerializer_to_representation ::
    "bool \<Rightarrow> db \<Rightarrow> department \<Rightarrow> error + department_repr" where
  "DepartmentSerializer_to_representation rq d dp =
     (case (case hod dp of
              None \<Rightarrow> Inr None
            | Some h \<Rightarrow> map_sum id Some (hyperlink_to rq ''staff-detail'' h)) of
        Inl err \<Rightarrow> Inl err
      | Inr h \<Rightarrow>
          (case list_data (hyperlink_to rq ''program-detail'')
                  (map pg_id (sort_key program_number
                     (filter (\<lambda>p. pg_department p = dp_id dp) (programs d)))) of
             Inl err \<Rightarrow> Inl err
           | Inr ps \<Rightarrow>
               Inr \<lparr>dr_id = dp_id dp, dr_name = dp_name dp, dr_code = dp_code dp,
                    dr_description = dp_description dp, dr_hod = h, dr_programs = ps\<rparr>))"

text \<open>
  \<open>ProgramSerializer\<close> (serializers.py, lines 78-95): the department is nested, the
  courses of the program are hyperlinks.
\<close>

definition ProgramSerializer_to_representation ::
    "bool \<Rightarrow> db \<Rightarrow> program \<Rightarrow> error + program_repr" where
  "ProgramSerializer_to_representation rq d p =
     (case get_department d (pg_department p) of
        None \<Rightarrow> Inl DoesNotExist
      | Some dp \<Rightarrow>
          (case DepartmentSerializer_to_representation rq d dp of
             Inl err \<Rightarrow> Inl err
           | Inr dr \<Rightarrow>
               (case list_data (hyperlink_to rq ''course-detail'')
                       (map c_id (filter (\<lambda>c. c_program c = pg_id p) (courses d))) of
                  Inl err \<Rightarrow> Inl err
                | Inr cs \<Rightarrow>
                    Inr \<lparr>pr_id = pg_id p, pr_program_number = program_number p,
                         pr_name = pg_name p, pr_code = pg_code p,
                         pr_program_type = program_type p,
                         pr_duration_years = duration_years p,
                         pr_description = pg_description p, pr_department = dr,
                         pr_courses = cs\<rparr>)))"

text \<open>\<open>CourseSerializer\<close> (serializers.py, lines 97-105): the program is nested.\<close>

definition CourseSerializer_to_representation ::
    "bool \<Rightarrow> db \<Rightarrow> course \<Rightarrow> error + course_repr" where
  "CourseSerializer_to_representation rq d c =
     (case get_program d (c_program c) of
        None \<Rightarrow> Inl DoesNotExist
      | Some p \<Rightarrow>
          (case ProgramSerializer_to_representation rq d p of
             Inl err \<Rightarrow> Inl err
           | Inr pr \<Rightarrow>
               Inr \<lparr>cr_id = c_id c, cr_code = c_code c, cr_title = c_title c,
                    cr_credit_hours = credit_hours c, cr_semester = c_semester c,
                    cr_program = pr\<rparr>))"

text \<open>\<open>Student.age\<close> (models.py, lines 180-187).\<close>

definition age :: "env \<Rightarrow> student \<Rightarrow> int" where
  "age e s =
     (case civil (today e) of
        (ty, tm, td) \<Rightarrow>
          (case civil (dob s) of
             (yb, mb, db) \<Rightarrow> ty - yb - (if tm < mb \<or> (tm = mb \<and> td < db) then 1 else 0)))"

text \<open>
  \<open>StudentSerializer\<close> (serializers.py, lines 111-124): user and program are nested. An
  instance without a user has no \<open>user\<close> entry. The \<open>photo\<close> file is left out of the model.
\<close>

definition StudentSerializer_to_representation ::
    "bool \<Rightarrow> env \<Rightarrow> db \<Rightarrow> student \<Rightarrow> error + student_repr" where
  "StudentSerializer_to_representation rq e d s =
     (case (case s_user s of
              None \<Rightarrow> Inr None
            | Some k \<Rightarrow>
                (case find (\<lambda>u. u_id u = k) (users d) of
                   None \<Rightarrow> Inl DoesNotExist
                 | Some u \<Rightarrow> Inr (Some (UserSerializer_to_representation u)))) of
        Inl err \<Rightarrow> Inl err
      | Inr ur \<Rightarrow>
          (case get_program d (s_program s) of
             None \<Rightarrow> Inl DoesNotExist
           | Some p \<Rightarrow>
               (case ProgramSerializer_to_representation rq d p of
                  Inl err \<Rightarrow> Inl err
                | Inr pr \<Rightarrow>
                    Inr \<lparr>sr_id = s_id s, sr_registration_no = registration_no s, sr_user = ur,
                         sr_full_name = s_full_name s, sr_gender = gender s, sr_dob = dob s,
                         sr_email = s_email s, sr_phone = s_phone s, sr_address = address s,
                         sr_program = pr, sr_enrollment_year = enrollment_year s,
                         sr_is_active = s_is_active s, sr_age = age e s\<rparr>)))"

subsection \<open>Bulk creation\<close>

text \<open>
  What \<open>CourseSerializer\<close> checks for one item of the request, from the field declarations
  of \<open>Course\<close> (models.py, lines 125-134): \<open>code\<close> and \<open>title\<close> are not blank and within
  \<open>max_length\<close>, \<open>code\<close> is not the code of a stored course (\<open>unique=True\<close>),
  \<open>credit_hours\<close> has at most three digits (one of them a decimal place), \<open>semester\<close> is one
  of the choices 1 to 8, and \<open>program_id\<close> names a stored program. An item is a record of
  parsed values; its key is not used.
\<close>

definition CourseSerializer_item_valid :: "db \<Rightarrow> course \<Rightarrow> bool" where
  "CourseSerializer_item_valid d c \<longleftrightarrow>
     c_code c \<noteq> [] \<and> length (c_code c) \<le> 20 \<and>
     \<not> list_ex (\<lambda>x. c_code x = c_code c) (courses d) \<and>
     c_title c \<noteq> [] \<and> length (c_title c) \<le> 150 \<and>
     - 999 \<le> credit_hours c \<and> credit_hours c \<le> 999 \<and>
     1 \<le> c_semester c \<and> c_semester c \<le> 8 \<and>
     get_program d (c_program c) \<noteq> None"

text \<open>
  \<^verbatim>\<open>Course.objects.create(**validated_data)\<close>: the database refuses a repeated \<open>code\<close>
  and a missing program. \<open>Course\<close> has no \<open>post_save\<close> receiver.
\<close>

definition Course_objects_create :: "db \<Rightarrow> course \<Rightarrow> error + db \<times> course" where
  "Course_objects_create d c =
     (if list_ex (\<lambda>x. c_code x = c_code c) (courses d) \<or> get_program d (c_program c) = None
      then Inl IntegrityError
      else (let row = c\<lparr>c_id := next_pk (map c_id (courses d))\<rparr>
            in Inr (d\<lparr>courses := courses d @ [row]\<rparr>, row)))"

text \<open>
  What \<open>StudentSerializer\<close> checks for one item (models.py, lines 156-178, and
  \<open>validate_dob\<close>, serializers.py, lines 126-130). \<open>email_ok\<close> stands for the format check
  of \<open>EmailField\<close>. The bound of \<open>enrollment_year\<close> is the largest \<open>PositiveIntegerField\<close>
  of the configured database (\<open>sqlite3\<close>).
\<close>

definition StudentSerializer_item_valid ::
    "(string \<Rightarrow> bool) \<Rightarrow> env \<Rightarrow> db \<Rightarrow> student \<Rightarrow> bool" where
  "StudentSerializer_item_valid email_ok e d s \<longleftrightarrow>
     registration_no s \<noteq> [] \<and> length (registration_no s) \<le> 30 \<and>
     \<not> list_ex (\<lambda>x. registration_no x = registration_no s) (students d) \<and>
     s_full_name s \<noteq> [] \<and> length (s_full_name s) \<le> 150 \<and>
     gender s \<in> set [''Male'', ''Female'', ''Other''] \<and>
     \<not> dob s > today e \<and>
     s_email s \<noteq> [] \<and> length (s_email s) \<le> 254 \<and> email_ok (s_email s) \<and>
     \<not> list_ex (\<lambda>x. s_email x = s_email s) (students d) \<and>
     s_phone s \<noteq> [] \<and> length (s_phone s) \<le> 15 \<and>
     \<not> list_ex (\<lambda>x. s_phone x = s_phone s) (students d) \<and>
     address s \<noteq> [] \<and>
     get_program d (s_program s) \<noteq> None \<and>
     enrollment_year s \<le> 9223372036854775807"

text \<open>
  \<^verbatim>\<open>Student.objects.create(**validated_data)\<close>: \<open>user\<close> is a one-to-one column that is
  not nullable; \<open>registration_no\<close>, \<open>email\<close> and \<open>phone\<close> are unique. \<open>Student\<close> has no
  \<open>post_save\<close> receiver.
\<close>

definition Student_objects_create :: "db \<Rightarrow> student \<Rightarrow> error + db \<times> student" where
  "Student_objects_create d s =
     (case s_user s of
        None \<Rightarrow> Inl IntegrityError
      | Some u \<Rightarrow>
          (if list_ex (\<lambda>x. s_user x = Some u \<or> registration_no x = registration_no s \<or>
                            s_email x = s_email s \<or> s_phone x = s_phone s) (students d)
              \<or> find (\<lambda>x. u_id x = u) (users d) = None \<or> get_program d (s_program s) = None
           then Inl IntegrityError
           else (let row = s\<lparr>s_id := next_pk (map s_id (students d))\<rparr>
                 in Inr (d\<lparr>students := students d @ [row]\<rparr>, row))))"

text \<open>
  \<open>StudentSerializer.create\<close>, inherited from \<open>ModelSerializer\<close>. The serializer declares
  \<open>user\<close> read-only (serializers.py, line 112), so the validated data carry no user
  whatever the request holds.
\<close>

definition StudentSerializer_create :: "db \<Rightarrow> student \<Rightarrow> error + db \<times> student" where
  "StudentSerializer_create d validated_data = Student_objects_create d (validated_data\<lparr>s_user := None\<rparr>)"

text \<open>
  \<open>serializer.save()\<close> with \<open>many=True\<close> creates the items one after the other; the first
  error stops it, with the rows created so far still written.
\<close>

fun create_each ::
    "(db \<Rightarrow> 'a \<Rightarrow> error + db \<times> 'a) \<Rightarrow> db \<Rightarrow> 'a list \<Rightarrow> db \<times> (error + 'a list)" where
  "create_each create d [] = (d, Inr [])"
| "create_each create d (x # xs) =
     (case create d x of
        Inl err \<Rightarrow> (d, Inl err)
      | Inr (d1, row) \<Rightarrow>
          (case create_each create d1 xs of
             (d2, Inl err) \<Rightarrow> (d2, Inl err)
           | (d2, Inr rows) \<Rightarrow> (d2, Inr (row # rows))))"

text \<open>
  \<^verbatim>\<open>@transaction.atomic\<close>: when the wrapped function raises, the database is the one
  before the call and the exception goes on.
\<close>

definition atomic :: "(db \<Rightarrow> db \<times> 'r outcome) \<Rightarrow> db \<Rightarrow> db \<times> 'r outcome" where
  "atomic f d =
     (case f d of
        (d1, Returned r) \<Rightarrow> (d1, Returned r)
      | (d1, Raised err) \<Rightarrow> (d, Raised err))"

datatype 'j bulk_body = Created string 'j | Errors "bool list"

text \<open>
  The body of both \<open>post\<close> methods (views.py, lines 300-306 and 329-335): validate the
  whole list, then save and answer 201 with \<open>serializer.data\<close>, or answer 400 with
  \<open>serializer.errors\<close> (here: which items have errors). \<open>render\<close> is \<open>serializer.data\<close>
  of the view's serializer.
\<close>

definition bulk_post ::
    "('a \<Rightarrow> bool) \<Rightarrow> (db \<Rightarrow> 'a \<Rightarrow> error + db \<times> 'a) \<Rightarrow> (db \<Rightarrow> 'a list \<Rightarrow> error + 'j) \<Rightarrow>
     string \<Rightarrow> 'a list \<Rightarrow> db \<Rightarrow> db \<times> 'j bulk_body response outcome" where
  "bulk_post is_valid create render msg data d =
     (if list_all is_valid data then
        (case create_each create d data of
           (d1, Inl err) \<Rightarrow> (d1, Raised err)
         | (d1, Inr rows) \<Rightarrow>
             (case render d1 rows of
                Inl err \<Rightarrow> (d1, Raised err)
              | Inr j \<Rightarrow> (d1, Returned (Response 201 (Created msg j)))))
      else (d, Returned (Response 400 (Errors (map (\<lambda>x. \<not> is_valid x) data)))))"

text \<open>
  \<^verbatim>\<open>StudentBulkAPIView.post\<close> and \<^verbatim>\<open>CourseBulkAPIView.post\<close>. Both build their
  serializer from \<open>data=request.data, many=True\<close> alone, without a context.
\<close>

definition StudentBulkAPIView_post ::
    "(string \<Rightarrow> bool) \<Rightarrow> env \<Rightarrow> db \<Rightarrow> student list \<Rightarrow>
     db \<times> student_repr list bulk_body response outcome" where
  "StudentBulkAPIView_post email_ok e d data =
     atomic (bulk_post (StudentSerializer_item_valid email_ok e d) StudentSerializer_create
               (\<lambda>d1. list_data (StudentSerializer_to_representation False e d1))
               ''Students created successfully'' data) d"

definition CourseBulkAPIView_post ::
    "db \<Rightarrow> course list \<Rightarrow> db \<times> course_repr list bulk_body response outcome" where
  "CourseBulkAPIView_post d data =
     atomic (bulk_post (CourseSerializer_item_valid d) Course_objects_create
               (\<lambda>d1. list_data (CourseSerializer_to_representation False d1))
               ''Courses created successfully'' data) d"



section \<open>Theorems\<close>

subsection \<open>Users and profiles\<close>

lemma fold_max_ge: "(a::nat) \<le> fold max ks a"
  by (induction ks arbitrary: a) (auto intro: order_trans[OF max.cobounded2])

lemma fold_max_mem: "k \<in> set ks \<Longrightarrow> (k::nat) \<le> fold max ks a"
proof (induction ks arbitrary: a)
  case Nil then show ?case by simp
next
  case (Cons x xs)
  show ?case
  proof (cases "k = x")
    case True
    have "x \<le> max x a" by simp
    also have "\<dots> \<le> fold max xs (max x a)" by (rule fold_max_ge)
    finally show ?thesis using True by simp
  next
    case False
    with Cons show ?thesis by simp
  qed
qed

lemma next_pk_fresh: "next_pk ks \<notin> set ks"
  using fold_max_mem[of "next_pk ks" ks 0] by (auto simp: next_pk_def)

lemma filter_unique_length:
  "distinct (map f xs) \<Longrightarrow> k \<in> f ` set xs \<Longrightarrow> length (filter (\<lambda>p. f p = k) xs) = 1"
proof (induction xs)
  case Nil then show ?case by simp
next
  case (Cons x xs)
  show ?case
  proof (cases "f x = k")
    case True
    with Cons.prems have "k \<notin> f ` set xs" by auto
    then have "filter (\<lambda>p. f p = k) xs = []" by (auto simp: filter_empty_conv)
    with True show ?thesis by simp
  next
    case False
    with Cons show ?thesis by auto
  qed
qed

lemma users_Student_delete [simp]: "users (Student_delete d k) = users d"
  and profiles_Student_delete [simp]: "profiles (Student_delete d k) = profiles d"
  by (simp_all add: Student_delete_def)

lemma users_Staff_delete [simp]: "users (Staff_delete d k) = users d"
  and profiles_Staff_delete [simp]: "profiles (Staff_delete d k) = profiles d"
  by (simp_all add: Staff_delete_def)

lemma fold_Student_delete_users [simp]:
  "users (fold (\<lambda>s acc. Student_delete acc (s_id s)) xs d) = users d"
  "profiles (fold (\<lambda>s acc. Student_delete acc (s_id s)) xs d) = profiles d"
  by (induction xs arbitrary: d) simp_all

lemma fold_Staff_delete_users [simp]:
  "users (fold (\<lambda>s acc. Staff_delete acc (sf_id s)) xs d) = users d"
  "profiles (fold (\<lambda>s acc. Staff_delete acc (sf_id s)) xs d) = profiles d"
  by (induction xs arbitrary: d) simp_all

lemma User_delete_tables:
  "users (User_delete d k) = filter (\<lambda>u. u_id u \<noteq> k) (users d)"
  "profiles (User_delete d k) = filter (\<lambda>p. up_user p \<noteq> k) (profiles d)"
  by (simp_all add: User_delete_def Let_def)

lemma users_inv_delete: "users_inv d \<Longrightarrow> users_inv (User_delete d k)"
  unfolding users_inv_def User_delete_tables
  by (auto simp: distinct_map_filter)

lemma find_u_id: "find (\<lambda>x. u_id x = k) us = Some old \<Longrightarrow> u_id old = k \<and> old \<in> set us"
  by (auto simp: find_Some_iff)

lemma find_None_u_id: "find (\<lambda>x. u_id x = k) us = None \<Longrightarrow> k \<notin> u_id ` set us"
  by (auto simp: find_None_iff)

lemma map_update_ids:
  "map u_id (map (\<lambda>x. if u_id x = k then u\<lparr>u_id := k\<rparr> else x) us) = map u_id us"
  by (induction us) auto

lemma User_save_insert:
  assumes "users_inv d"
    and "(case key of None \<Rightarrow> None | Some k \<Rightarrow> find (\<lambda>x. u_id x = k) (users d)) = None"
    and "\<not> list_ex (\<lambda>x. username x = username u) (users d)"
  defines "nid \<equiv> (case key of None \<Rightarrow> next_pk (map u_id (users d)) | Some k \<Rightarrow> k)"
  shows "User_save d key u =
      (d\<lparr>users := users d @ [u\<lparr>u_id := nid\<rparr>],
         profiles := profiles d @ [\<lparr>up_id = next_pk (map up_id (profiles d)), up_user = nid,
            role = role_for u\<rparr>]\<rparr>, Inr (u\<lparr>u_id := nid\<rparr>))"
    and "nid \<notin> u_id ` set (users d)"
proof -
  show fresh: "nid \<notin> u_id ` set (users d)"
  proof (cases key)
    case None
    then show ?thesis using next_pk_fresh[of "map u_id (users d)"] by (simp add: nid_def)
  next
    case (Some k)
    then show ?thesis using assms(2) find_None_u_id[of k "users d"] by (simp add: nid_def)
  qed
  then have "\<not> list_ex (\<lambda>p. up_user p = nid) (profiles d)"
    using assms(1) by (auto simp: users_inv_def list_ex_iff)
  then show "User_save d key u =
      (d\<lparr>users := users d @ [u\<lparr>u_id := nid\<rparr>],
         profiles := profiles d @ [\<lparr>up_id = next_pk (map up_id (profiles d)), up_user = nid,
            role = role_for u\<rparr>]\<rparr>, Inr (u\<lparr>u_id := nid\<rparr>))"
    using assms(2,3)
    by (simp add: User_save_def Let_def create_user_profile_def UserProfile_objects_create_def
        role_for_def nid_def)
qed

lemma User_save_update:
  assumes "key = Some k" "find (\<lambda>x. u_id x = k) (users d) = Some old"
  shows "profiles (fst (User_save d key u)) = profiles d"
    and "map u_id (users (fst (User_save d key u))) = map u_id (users d)"
  using assms find_u_id[OF assms(2)]
  by (auto simp: User_save_def Let_def create_user_profile_def map_update_ids)

lemma users_inv_save: assumes "users_inv d" shows "users_inv (fst (User_save d key u))"
proof (cases "(case key of None \<Rightarrow> None | Some k \<Rightarrow> find (\<lambda>x. u_id x = k) (users d))")
  case None
  show ?thesis
  proof (cases "list_ex (\<lambda>x. username x = username u) (users d)")
    case True
    with None show ?thesis using assms by (simp add: User_save_def)
  next
    case False
    from User_save_insert[OF assms None False] show ?thesis
      using assms by (auto simp: users_inv_def)
  qed
next
  case (Some old)
  then obtain k where k: "key = Some k" "find (\<lambda>x. u_id x = k) (users d) = Some old"
    by (cases key) auto
  from User_save_update[OF k] show ?thesis using assms by (simp add: users_inv_def)
qed

lemma serializer_raises:
  assumes "users_inv d" "\<not> list_ex (\<lambda>x. username x = username vd) (users d)"
  shows "UserCreateSerializer_create h d vd =
     (fst (User_save d None (vd\<lparr>password := h (password vd)\<rparr>)), Inl IntegrityError)"
  using User_save_insert(1)[OF assms(1), of None "vd\<lparr>password := h (password vd)\<rparr>"] assms(2)
  by (simp add: UserCreateSerializer_create_def UserProfile_objects_create_def)

lemma serializer_state:
  assumes "users_inv d"
  shows "fst (UserCreateSerializer_create h d vd) = fst (User_save d None (vd\<lparr>password := h (password vd)\<rparr>))"
proof (cases "list_ex (\<lambda>x. username x = username vd) (users d)")
  case True
  then show ?thesis by (simp add: UserCreateSerializer_create_def User_save_def)
next
  case False
  from serializer_raises[OF assms False] show ?thesis by simp
qed

lemma reachable_users_inv: "reachable_users d \<Longrightarrow> users_inv d"
proof (induction rule: reachable_users.induct)
  case ru_init
  show ?case by (simp add: users_inv_def empty_db_def)
next
  case (ru_save d key u)
  then show ?case by (simp add: users_inv_save)
next
  case (ru_serializer d hash vd)
  then show ?case by (simp add: serializer_state users_inv_save)
next
  case (ru_delete d k)
  then show ?case by (simp add: users_inv_delete)
next
  case (ru_other d d')
  then show ?case by (simp add: users_inv_def)
qed


lemma save_alice: "fst (User_save empty_db None alice) = db_alice"
  by (simp add: User_save_def empty_db_def alice_def db_alice_def Let_def create_user_profile_def
      UserProfile_objects_create_def next_pk_def)

lemma reachable_db_alice: "reachable_users db_alice"
  using ru_save[OF ru_init, of None alice] by (simp add: save_alice)

text \<open>
  Claim C10. In every reachable state each user has exactly one profile. Saving a new user
  whose username is free inserts the user and exactly one profile for it, with role
  \<open>Admin\<close> for a superuser, else \<open>Staff\<close> for a staff user, else \<open>Student\<close>; the
  serializer's \<open>create\<close> leaves the same single profile (its own second
  \<open>UserProfile.objects.create\<close> is refused by the one-to-one column). Saving an existing
  user leaves the profile table as it was.
\<close>

theorem user_has_exactly_one_profile:
  "reachable_users d \<Longrightarrow>
     list_all (\<lambda>x. length (profiles_for d (u_id x)) = 1) (users d) \<and>
     (\<not> list_ex (\<lambda>x. username x = username u) (users d) \<longrightarrow>
        (\<exists>u' p. User_save d None u =
             (d\<lparr>users := users d @ [u'], profiles := profiles d @ [p]\<rparr>, Inr u') \<and>
           up_user p = u_id u' \<and> role p = role_for u \<and>
           UserCreateSerializer_create h d u =
             (d\<lparr>users := users d @ [u'\<lparr>password := h (password u)\<rparr>],
                profiles := profiles d @ [p]\<rparr>, Inl IntegrityError))) \<and>
     (\<forall>k old. find (\<lambda>x. u_id x = k) (users d) = Some old \<longrightarrow>
        profiles (fst (User_save d (Some k) u)) = profiles d)"
proof -
  assume r: "reachable_users d"
  then have inv: "users_inv d" by (rule reachable_users_inv)
  have one: "list_all (\<lambda>x. length (profiles_for d (u_id x)) = 1) (users d)"
    unfolding list_all_iff profiles_for_def
  proof
    fix x assume "x \<in> set (users d)"
    then have "u_id x \<in> up_user ` set (profiles d)" using inv by (auto simp: users_inv_def)
    with inv show "length (filter (\<lambda>p. up_user p = u_id x) (profiles d)) = 1"
      by (simp add: users_inv_def filter_unique_length)
  qed
  have new: "\<exists>u' p. User_save d None u =
             (d\<lparr>users := users d @ [u'], profiles := profiles d @ [p]\<rparr>, Inr u') \<and>
           up_user p = u_id u' \<and> role p = role_for u \<and>
           UserCreateSerializer_create h d u =
             (d\<lparr>users := users d @ [u'\<lparr>password := h (password u)\<rparr>],
                profiles := profiles d @ [p]\<rparr>, Inl IntegrityError)"
    if free: "\<not> list_ex (\<lambda>x. username x = username u) (users d)"
  proof -
    let ?nid = "next_pk (map u_id (users d))"
    let ?p = "\<lparr>up_id = next_pk (map up_id (profiles d)), up_user = ?nid, role = role_for u\<rparr>"
    have s1: "User_save d None u =
        (d\<lparr>users := users d @ [u\<lparr>u_id := ?nid\<rparr>], profiles := profiles d @ [?p]\<rparr>,
         Inr (u\<lparr>u_id := ?nid\<rparr>))"
      using User_save_insert(1)[OF inv, of None u] free by simp
    have s2: "User_save d None (u\<lparr>password := h (password u)\<rparr>) =
        (d\<lparr>users := users d @ [u\<lparr>password := h (password u), u_id := ?nid\<rparr>],
           profiles := profiles d @ [?p]\<rparr>,
         Inr (u\<lparr>password := h (password u), u_id := ?nid\<rparr>))"
      using User_save_insert(1)[OF inv, of None "u\<lparr>password := h (password u)\<rparr>"] free
      by (simp add: role_for_def)
    have s3: "UserCreateSerializer_create h d u =
        (d\<lparr>users := users d @ [u\<lparr>u_id := ?nid, password := h (password u)\<rparr>],
           profiles := profiles d @ [?p]\<rparr>, Inl IntegrityError)"
      by (simp add: UserCreateSerializer_create_def s2 UserProfile_objects_create_def)
    show ?thesis
      by (rule exI[of _ "u\<lparr>u_id := ?nid\<rparr>"], rule exI[of _ ?p]) (simp add: s1 s3)
  qed
  have upd: "profiles (fst (User_save d (Some k) u)) = profiles d"
    if "find (\<lambda>x. u_id x = k) (users d) = Some old" for k old
    using User_save_update(1)[OF refl that] .
  from one new upd show ?thesis by blast
qed

theorem user_has_exactly_one_profile_witness:
  "reachable_users db_alice \<and>
   length (profiles_for db_alice 1) = 1 \<and>
   users (fst (User_save db_alice None bob)) = [alice\<lparr>u_id := 1\<rparr>, bob\<lparr>u_id := 2\<rparr>] \<and>
   profiles (fst (User_save db_alice None bob)) =
     [\<lparr>up_id = 1, up_user = 1, role = ''Staff''\<rparr>, \<lparr>up_id = 2, up_user = 2, role = ''Student''\<rparr>] \<and>
   snd (UserCreateSerializer_create id db_alice bob) = Inl IntegrityError \<and>
   profiles (fst (UserCreateSerializer_create id db_alice bob)) =
     [\<lparr>up_id = 1, up_user = 1, role = ''Staff''\<rparr>, \<lparr>up_id = 2, up_user = 2, role = ''Student''\<rparr>] \<and>
   profiles (fst (User_save db_alice (Some 1) bob)) = profiles db_alice"
proof -
  have free: "\<not> list_ex (\<lambda>x. username x = username bob) (users db_alice)"
    by (simp add: db_alice_def alice_def bob_def empty_db_def)
  have old: "find (\<lambda>x. u_id x = 1) (users db_alice) = Some (alice\<lparr>u_id := 1\<rparr>)"
    by (simp add: db_alice_def empty_db_def)
  note t = user_has_exactly_one_profile[OF reachable_db_alice, of bob id]
  from t have "length (profiles_for db_alice 1) = 1"
    by (simp add: db_alice_def empty_db_def)
  moreover from t old have "profiles (fst (User_save db_alice (Some 1) bob)) = profiles db_alice"
    by blast
  moreover have "User_save db_alice None bob =
      (db_alice\<lparr>users := [alice\<lparr>u_id := 1\<rparr>, bob\<lparr>u_id := 2\<rparr>],
         profiles := [\<lparr>up_id = 1, up_user = 1, role = ''Staff''\<rparr>,
                      \<lparr>up_id = 2, up_user = 2, role = ''Student''\<rparr>]\<rparr>, Inr (bob\<lparr>u_id := 2\<rparr>))"
    by (simp add: User_save_def db_alice_def empty_db_def alice_def bob_def Let_def
        create_user_profile_def UserProfile_objects_create_def next_pk_def)
  moreover have "UserCreateSerializer_create id db_alice bob =
      (db_alice\<lparr>users := [alice\<lparr>u_id := 1\<rparr>, bob\<lparr>u_id := 2\<rparr>],
         profiles := [\<lparr>up_id = 1, up_user = 1, role = ''Staff''\<rparr>,
                      \<lparr>up_id = 2, up_user = 2, role = ''Student''\<rparr>]\<rparr>, Inl IntegrityError)"
    by (simp add: UserCreateSerializer_create_def User_save_def db_alice_def empty_db_def alice_def
        bob_def Let_def create_user_profile_def UserProfile_objects_create_def next_pk_def)
  ultimately show ?thesis using reachable_db_alice by simp
qed

text \<open>
  Claim C1. \<open>has_permission\<close> grants access exactly when the requesting user is
  authenticated and the role on the user's profile is in the view's \<open>allowed_roles\<close>,
  the empty list when the view defines none, so that such a view never grants access.
\<close>

theorem has_permission_iff:
  "(has_permission d ru v = Inr True \<longleftrightarrow>
     (\<exists>u p. ru = AuthUser u \<and> is_authenticated ru \<and> profile_of d u = Some p \<and>
        role p \<in> set (case allowed_roles v of None \<Rightarrow> [] | Some rs \<Rightarrow> rs))) \<and>
   (allowed_roles v = None \<longrightarrow> has_permission d ru v \<noteq> Inr True)"
  by (auto simp: has_permission_def Let_def split: request_user.splits option.splits)

theorem has_permission_iff_witness:
  "has_permission db_alice (AuthUser (alice\<lparr>u_id := 1\<rparr>)) \<lparr>allowed_roles = Some [''Admin'', ''Staff'']\<rparr>
     = Inr True \<and>
   has_permission db_alice (AuthUser (alice\<lparr>u_id := 1\<rparr>)) \<lparr>allowed_roles = Some [''Admin'']\<rparr>
     = Inr False \<and>
   has_permission db_alice (AuthUser (alice\<lparr>u_id := 1\<rparr>)) \<lparr>allowed_roles = None\<rparr> \<noteq> Inr True \<and>
   has_permission db_alice AnonymousUser \<lparr>allowed_roles = Some [''Admin'', ''Staff'']\<rparr> = Inr False"
proof -
  have p: "profile_of db_alice (alice\<lparr>u_id := 1\<rparr>) = Some \<lparr>up_id = 1, up_user = 1, role = ''Staff''\<rparr>"
    by (simp add: profile_of_def db_alice_def empty_db_def)
  have "has_permission db_alice (AuthUser (alice\<lparr>u_id := 1\<rparr>))
          \<lparr>allowed_roles = Some [''Admin'', ''Staff'']\<rparr> = Inr True"
    using has_permission_iff[of db_alice "AuthUser (alice\<lparr>u_id := 1\<rparr>)"
        "\<lparr>allowed_roles = Some [''Admin'', ''Staff'']\<rparr>"] p by simp
  moreover have "has_permission db_alice (AuthUser (alice\<lparr>u_id := 1\<rparr>)) \<lparr>allowed_roles = None\<rparr>
      \<noteq> Inr True"
    using has_permission_iff[of db_alice "AuthUser (alice\<lparr>u_id := 1\<rparr>)" "\<lparr>allowed_roles = None\<rparr>"]
    by simp
  moreover have "has_permission db_alice (AuthUser (alice\<lparr>u_id := 1\<rparr>)) \<lparr>allowed_roles = Some [''Admin'']\<rparr>
     = Inr False"
    using p by (simp add: has_permission_def)
  moreover have "has_permission db_alice AnonymousUser \<lparr>allowed_roles = Some [''Admin'', ''Staff'']\<rparr>
      = Inr False"
    by (simp add: has_permission_def)
  ultimately show ?thesis by simp
qed

subsection \<open>The receivers of signals.py\<close>

lemma get_student_id: "get_student d k = Some s \<Longrightarrow> s_id s = k"
  by (auto simp: get_student_def find_Some_iff)

lemma get_program_id: "get_program d k = Some p \<Longrightarrow> pg_id p = k"
  by (auto simp: get_program_def find_Some_iff)

lemma exam_notify_loop_notifications:
  "\<exists>news. exam_notify_loop e x c ss d = d\<lparr>notifications := notifications d @ news\<rparr> \<and>
     map recipient_student news = map (\<lambda>s. Some (s_id s)) ss \<and>
     list_all (\<lambda>n. notif_type n = ''Exam'' \<and> recipient_staff n = None) news"
proof (induction ss arbitrary: d)
  case Nil
  show ?case by (rule exI[of _ "[]"]) simp
next
  case (Cons s ss)
  let ?d1 = "Notification_objects_create e d (Some (s_id s)) None ''Exam'' ''New Exam Scheduled''
          (''The '' @ exam_type x @ '' exam for '' @ c_title c @ '' is scheduled on '' @
             str_date e (ex_date x) @ ''.'') False False"
  from Cons.IH[of ?d1] obtain news where
    n: "exam_notify_loop e x c ss ?d1 = ?d1\<lparr>notifications := notifications ?d1 @ news\<rparr>"
       "map recipient_student news = map (\<lambda>s. Some (s_id s)) ss"
       "list_all (\<lambda>n. notif_type n = ''Exam'' \<and> recipient_staff n = None) news" by blast
  obtain n1 where n1: "notifications ?d1 = notifications d @ [n1]" "recipient_student n1 = Some (s_id s)"
     "notif_type n1 = ''Exam''" "recipient_staff n1 = None" "?d1 = d\<lparr>notifications := notifications d @ [n1]\<rparr>"
    by (simp add: Notification_objects_create_def)
  show ?case
    apply (rule exI[of _ "n1 # news"])
    using n n1 by simp
qed

lemma count_by_key:
  "distinct (map f xs) \<Longrightarrow> x \<in> set xs \<Longrightarrow>
     length (filter (\<lambda>y. f y = f x) (filter P xs)) = (if P x then 1 else 0)"
proof (induction xs)
  case Nil then show ?case by simp
next
  case (Cons a xs)
  show ?case
  proof (cases "x = a")
    case True
    from Cons.prems have "f a \<notin> f ` set xs" by simp
    then have "\<forall>y\<in>set xs. f y \<noteq> f a" by (metis imageI)
    then have "filter (\<lambda>y. f y = f a) (filter P xs) = []"
      by (simp add: filter_empty_conv)
    with True show ?thesis by simp
  next
    case False
    with Cons.prems have xs: "x \<in> set xs" and ne: "f a \<noteq> f x" by auto
    from Cons.prems have "distinct (map f xs)" by simp
    from Cons.IH[OF this xs] ne show ?thesis
      by (cases "P a"; cases "P x"; simp)
  qed
qed

lemma length_filter_map_eq:
  "map g news = map h ss \<Longrightarrow> length (filter (\<lambda>n. g n = v) news) = length (filter (\<lambda>s. h s = v) ss)"
proof (induction news arbitrary: ss)
  case Nil then show ?case by simp
next
  case (Cons n news)
  then obtain s ss' where "ss = s # ss'" by (cases ss) auto
  with Cons show ?case by auto
qed

text \<open>
  Claim C6. When an exam is created (and its course and the course's program can be read)
  the receiver appends one notification per student of that program, in the students'
  order, each with \<open>recipient_student\<close> that student, no staff recipient and
  \<open>notif_type\<close> \<open>Exam\<close>; with distinct student keys every student of the program is the
  recipient of exactly one of the new rows and every other student of none. Saving an
  existing exam leaves the database as it was.
\<close>

theorem exam_notification_per_student:
  "get_course d (ex_course x) = Some c \<Longrightarrow> get_program d (c_program c) = Some p \<Longrightarrow>
   distinct (map s_id (students d)) \<Longrightarrow>
   (\<exists>news. create_exam_notification e d x True = Inr (d\<lparr>notifications := notifications d @ news\<rparr>) \<and>
      map recipient_student news =
        map (\<lambda>s. Some (s_id s)) (filter (\<lambda>s. s_program s = c_program c) (students d)) \<and>
      list_all (\<lambda>n. notif_type n = ''Exam'' \<and> recipient_staff n = None) news \<and>
      list_all (\<lambda>s. length (filter (\<lambda>n. recipient_student n = Some (s_id s)) news) =
                     (if s_program s = c_program c then 1 else 0)) (students d)) \<and>
   create_exam_notification e d x False = Inr d"
proof -
  assume c: "get_course d (ex_course x) = Some c" and p: "get_program d (c_program c) = Some p"
    and dist: "distinct (map s_id (students d))"
  let ?ss = "filter (\<lambda>s. s_program s = c_program c) (students d)"
  from exam_notify_loop_notifications[of e x c ?ss d] obtain news where
    n: "exam_notify_loop e x c ?ss d = d\<lparr>notifications := notifications d @ news\<rparr>"
       "map recipient_student news = map (\<lambda>s. Some (s_id s)) ?ss"
       "list_all (\<lambda>n. notif_type n = ''Exam'' \<and> recipient_staff n = None) news" by blast
  have run: "create_exam_notification e d x True = Inr (d\<lparr>notifications := notifications d @ news\<rparr>)"
    using c p get_program_id[OF p] n(1) by (simp add: create_exam_notification_def)
  have cnt: "list_all (\<lambda>s. length (filter (\<lambda>n. recipient_student n = Some (s_id s)) news) =
                     (if s_program s = c_program c then 1 else 0)) (students d)"
    unfolding list_all_iff
  proof
    fix s assume s: "s \<in> set (students d)"
    have "length (filter (\<lambda>n. recipient_student n = Some (s_id s)) news) =
          length (filter (\<lambda>y. Some (s_id y) = Some (s_id s)) ?ss)"
      by (rule length_filter_map_eq[OF n(2)])
    also have "\<dots> = length (filter (\<lambda>y. s_id y = s_id s) ?ss)" by simp
    also have "\<dots> = (if s_program s = c_program c then 1 else 0)"
      by (rule count_by_key[OF dist s])
    finally show "length (filter (\<lambda>n. recipient_student n = Some (s_id s)) news) =
          (if s_program s = c_program c then 1 else 0)" .
  qed
  have upd: "create_exam_notification e d x False = Inr d"
    by (simp add: create_exam_notification_def)
  from run n(2,3) cnt upd show ?thesis by blast
qed

text \<open>
  Claim C9. When an existing fee is saved with \<open>is_paid\<close> set, the receiver marks every
  unread notification of the fee's student with \<open>notif_type\<close> \<open>Fee\<close> as read and
  auto-resolved, leaves every other notification (other students, other types, already
  read) as it was and in place, and appends one notification for that student, titled
  \<open>Fee Paid\<close>, with \<open>notif_type\<close> \<open>Fee\<close>, already read and auto-resolved.
\<close>

theorem fee_paid_auto_resolves:
  "get_student d (fe_student f) = Some s \<Longrightarrow> is_paid f \<Longrightarrow>
   (\<exists>new. create_fee_notification e d f False =
      Inr (d\<lparr>notifications :=
              map (\<lambda>n. if recipient_student n = Some (fe_student f) \<and> notif_type n = ''Fee'' \<and> \<not> read n
                        then n\<lparr>read := True, auto_resolved := True\<rparr> else n) (notifications d)
              @ [new]\<rparr>) \<and>
      recipient_student new = Some (fe_student f) \<and> recipient_staff new = None \<and>
      notif_type new = ''Fee'' \<and> title new = ''Fee Paid'' \<and> read new \<and> auto_resolved new)"
proof -
  assume s: "get_student d (fe_student f) = Some s" and paid: "is_paid f"
  let ?old = "map (\<lambda>n. if recipient_student n = Some (fe_student f) \<and> notif_type n = ''Fee'' \<and> \<not> read n
                        then n\<lparr>read := True, auto_resolved := True\<rparr> else n) (notifications d)"
  let ?new = "\<lparr>n_id = next_pk (map n_id ?old), recipient_student = Some (fe_student f),
      recipient_staff = None, notif_type = ''Fee'', title = ''Fee Paid'',
      message = ''Your fee of '' @ str_decimal e (amount f) @ '' has been paid.'',
      created_at = now e, read = True, auto_resolved = True\<rparr>"
  have "create_fee_notification e d f False = Inr (d\<lparr>notifications := ?old @ [?new]\<rparr>)"
    using s paid get_student_id[OF s]
    by (simp add: create_fee_notification_def Notification_objects_create_def Let_def)
  then show ?thesis
    by (intro exI[of _ ?new]) simp
qed


lemma db_school_tables:
  "get_student db_school 1 = Some (mk_student 1 ''bob'' 2 1)"
  "get_program db_school 1 = Some \<lparr>pg_id = 1, program_number = 1, pg_name = ''Computer Science'',
      pg_code = ''BSCS'', program_type = ''BS'', pg_department = 1, duration_years = 4,
      pg_description = None\<rparr>"
  "get_course db_school 1 = Some \<lparr>c_id = 1, c_code = ''CS101'', c_title = ''Programming'',
      credit_hours = 30, c_semester = 1, c_program = 1\<rparr>"
  "get_department db_school 1 = Some \<lparr>dp_id = 1, dp_name = ''Computing'', dp_code = ''CS'',
      dp_description = None, hod = None\<rparr>"
  "notifications db_school = []"
  "students db_school = [mk_student 1 ''bob'' 2 1, mk_student 2 ''carol'' 3 1, mk_student 3 ''dave'' 4 2]"
  by (simp_all add: db_school_def empty_db_def get_student_def get_program_def get_course_def
      get_department_def mk_student_def)

theorem exam_notification_per_student_witness:
  "create_exam_notification env0 db_school exam1 False = Inr db_school \<and>
   (case create_exam_notification env0 db_school exam1 True of
      Inl _ \<Rightarrow> False
    | Inr d' \<Rightarrow> map recipient_student (notifications d') = [Some 1, Some 2] \<and>
               map notif_type (notifications d') = [''Exam'', ''Exam''])"
proof -
  let ?c = "\<lparr>c_id = 1, c_code = ''CS101'', c_title = ''Programming'',
      credit_hours = 30, c_semester = 1, c_program = 1\<rparr>"
  have c: "get_course db_school (ex_course exam1) = Some ?c"
    using db_school_tables(3) by (simp add: exam1_def)
  have p: "get_program db_school (c_program ?c) = Some \<lparr>pg_id = 1, program_number = 1,
      pg_name = ''Computer Science'', pg_code = ''BSCS'', program_type = ''BS'', pg_department = 1,
      duration_years = 4, pg_description = None\<rparr>"
    using db_school_tables(2) by simp
  have dist: "distinct (map s_id (students db_school))"
    by (simp add: db_school_tables(6) mk_student_def)
  from exam_notification_per_student[OF c p dist, of env0] obtain news where
    n: "create_exam_notification env0 db_school exam1 True =
          Inr (db_school\<lparr>notifications := notifications db_school @ news\<rparr>)"
       "map recipient_student news =
          map (\<lambda>s. Some (s_id s)) (filter (\<lambda>s. s_program s = c_program ?c) (students db_school))"
       "list_all (\<lambda>n. notif_type n = ''Exam'' \<and> recipient_staff n = None) news"
    and u: "create_exam_notification env0 db_school exam1 False = Inr db_school"
    by blast
  from n(2) have r: "map recipient_student news = [Some 1, Some 2]"
    by (simp add: db_school_tables(6) mk_student_def)
  then have "length news = 2" by (metis length_map length_Cons list.size(3) numeral_2_eq_2)
  then obtain a b where ab: "news = [a, b]"
    by (metis (no_types, opaque_lifting) Suc_length_conv length_0_conv numeral_2_eq_2)
  with n(3) have "map notif_type news = [''Exam'', ''Exam'']" by simp
  with n(1) r u show ?thesis by (simp add: db_school_tables(5))
qed

theorem fee_paid_auto_resolves_witness:
  "(case create_fee_notification env0 db_fees (fee1\<lparr>is_paid := True\<rparr>) False of
      Inl _ \<Rightarrow> False
    | Inr d' \<Rightarrow>
        butlast (notifications d') =
          [(mk_notification 1 1 ''Fee'' False)\<lparr>read := True, auto_resolved := True\<rparr>,
           mk_notification 2 1 ''Fee'' True, mk_notification 3 1 ''Exam'' False,
           mk_notification 4 2 ''Fee'' False] \<and>
        title (last (notifications d')) = ''Fee Paid'' \<and>
        recipient_student (last (notifications d')) = Some 1 \<and>
        read (last (notifications d')) \<and> auto_resolved (last (notifications d')))"
proof -
  have s: "get_student db_fees (fe_student (fee1\<lparr>is_paid := True\<rparr>)) = Some (mk_student 1 ''bob'' 2 1)"
    using db_school_tables(1) by (simp add: db_fees_def fee1_def get_student_def)
  have paid: "is_paid (fee1\<lparr>is_paid := True\<rparr>)" by simp
  from fee_paid_auto_resolves[OF s paid, of env0] obtain new where
    n: "create_fee_notification env0 db_fees (fee1\<lparr>is_paid := True\<rparr>) False =
      Inr (db_fees\<lparr>notifications :=
              map (\<lambda>n. if recipient_student n = Some (fe_student (fee1\<lparr>is_paid := True\<rparr>)) \<and>
                           notif_type n = ''Fee'' \<and> \<not> read n
                        then n\<lparr>read := True, auto_resolved := True\<rparr> else n) (notifications db_fees)
              @ [new]\<rparr>)"
      "recipient_student new = Some (fe_student (fee1\<lparr>is_paid := True\<rparr>))"
      "title new = ''Fee Paid''" "read new" "auto_resolved new"
    by blast
  from n(2) have "recipient_student new = Some 1" by (simp add: fee1_def)
  with n(1,3,4,5) show ?thesis
    by (simp add: db_fees_def fee1_def mk_notification_def)
qed

lemma get_course_id: "get_course d k = Some c \<Longrightarrow> c_id c = k"
  by (auto simp: get_course_def find_Some_iff)

lemma length_exam_notify_loop:
  "length (notifications (exam_notify_loop e x c ss d)) = length (notifications d) + length ss"
  by (induction ss arbitrary: d) (simp_all add: Notification_objects_create_def)

lemma admission_count:
  "get_student d (ad_student a) \<noteq> None \<Longrightarrow> get_program d (ad_program a) \<noteq> None \<Longrightarrow>
     notif_count (create_admission_notification e d a created) = Some (length (notifications d) + 1)"
  by (auto simp: create_admission_notification_def notif_count_def Notification_objects_create_def Let_def)

lemma staff_count:
  "(\<forall>k. sf_department t = Some k \<longrightarrow> get_department d k \<noteq> None) \<Longrightarrow>
     notif_count (create_staff_notification e d t created) = Some (length (notifications d) + 1)"
  by (auto simp: create_staff_notification_def notif_count_def Notification_objects_create_def
      split: option.splits)

lemma enrollment_count:
  "get_student d (en_student en) \<noteq> None \<Longrightarrow> get_course d (en_course en) \<noteq> None \<Longrightarrow>
     notif_count (create_enrollment_notification e d en created) =
       Some (length (notifications d) + (if created then 1 else 0))"
  by (auto simp: create_enrollment_notification_def notif_count_def Notification_objects_create_def)

lemma attendance_count:
  "get_student d (at_student at) \<noteq> None \<Longrightarrow> get_course d (at_course at) \<noteq> None \<Longrightarrow>
     notif_count (create_attendance_notification e d at created) =
       Some (length (notifications d) + (if created then 1 else 0))"
  by (auto simp: create_attendance_notification_def notif_count_def Notification_objects_create_def)

lemma grade_count:
  "get_student d (gr_student g) \<noteq> None \<Longrightarrow>
   (\<exists>x. get_exam d (gr_exam g) = Some x \<and> get_course d (ex_course x) \<noteq> None) \<Longrightarrow>
     notif_count (create_grade_notification e d g created) =
       Some (length (notifications d) + (if created then 1 else 0))"
  by (auto simp: create_grade_notification_def notif_count_def Notification_objects_create_def)

lemma exam_count:
  "get_course d (ex_course x) = Some c \<Longrightarrow> get_program d (c_program c) \<noteq> None \<Longrightarrow>
     notif_count (create_exam_notification e d x created) =
       Some (length (notifications d) +
             (if created then length (filter (\<lambda>s. s_program s = c_program c) (students d)) else 0))"
proof -
  assume c: "get_course d (ex_course x) = Some c" and "get_program d (c_program c) \<noteq> None"
  then obtain p where p: "get_program d (c_program c) = Some p" by blast
  from get_program_id[OF p] c p show ?thesis
    by (simp add: create_exam_notification_def notif_count_def length_exam_notify_loop)
qed

lemma fee_count:
  "get_student d (fe_student f) \<noteq> None \<Longrightarrow>
     notif_count (create_fee_notification e d f created) =
       Some (length (notifications d) +
             (if (created \<and> \<not> is_paid f) \<or> (\<not> created \<and> (is_paid f \<or> due_date f < today e))
              then 1 else 0))"
  by (auto simp: create_fee_notification_def notif_count_def Notification_objects_create_def Let_def)


text \<open>
  Claim C7, as amended. A save of an \<open>Admission\<close> or a \<open>Staff\<close> record, created or
  updated, adds exactly one notification. For \<open>Enrollment\<close>, \<open>Attendance\<close> and \<open>Grade\<close>
  only the creation adds one, an update adds none. Creating an \<open>Exam\<close> adds one per
  student of the course's program (none when the program has no student), an update none.
  A \<open>Fee\<close> adds one when it is created unpaid, or updated while paid or overdue, and none
  otherwise.
\<close>

theorem post_save_notification_counts:
  "(get_student d (ad_student a) \<noteq> None \<and> get_program d (ad_program a) \<noteq> None \<longrightarrow>
      notif_count (create_admission_notification e d a created) = Some (length (notifications d) + 1)) \<and>
   ((\<forall>k. sf_department t = Some k \<longrightarrow> get_department d k \<noteq> None) \<longrightarrow>
      notif_count (create_staff_notification e d t created) = Some (length (notifications d) + 1)) \<and>
   (get_student d (en_student en) \<noteq> None \<and> get_course d (en_course en) \<noteq> None \<longrightarrow>
      notif_count (create_enrollment_notification e d en created) =
        Some (length (notifications d) + (if created then 1 else 0))) \<and>
   (get_student d (at_student at) \<noteq> None \<and> get_course d (at_course at) \<noteq> None \<longrightarrow>
      notif_count (create_attendance_notification e d at created) =
        Some (length (notifications d) + (if created then 1 else 0))) \<and>
   (get_student d (gr_student g) \<noteq> None \<and>
    (\<exists>x. get_exam d (gr_exam g) = Some x \<and> get_course d (ex_course x) \<noteq> None) \<longrightarrow>
      notif_count (create_grade_notification e d g created) =
        Some (length (notifications d) + (if created then 1 else 0))) \<and>
   (get_course d (ex_course x) = Some c \<and> get_program d (c_program c) \<noteq> None \<longrightarrow>
      notif_count (create_exam_notification e d x created) =
        Some (length (notifications d) +
              (if created then length (filter (\<lambda>s. s_program s = c_program c) (students d)) else 0))) \<and>
   (get_student d (fe_student f) \<noteq> None \<longrightarrow>
      notif_count (create_fee_notification e d f created) =
        Some (length (notifications d) +
              (if (created \<and> \<not> is_paid f) \<or> (\<not> created \<and> (is_paid f \<or> due_date f < today e))
               then 1 else 0)))"
  using admission_count[of d a e created] staff_count[of t d e created]
    enrollment_count[of d en e created] attendance_count[of d at e created]
    grade_count[of d g e created] exam_count[of d x c e created] fee_count[of d f e created]
  by blast

text \<open>
  The claim as stated fails: updates of an enrollment, an attendance, a grade and an exam,
  the update of an unpaid fee that is not overdue, and the creation of a paid fee leave the
  database as it was.
\<close>

theorem post_save_notification_counts_counterexample:
  "create_enrollment_notification env0 db_fees enrollment1 False = Inr db_fees \<and>
   create_attendance_notification env0 db_fees attendance1 False = Inr db_fees \<and>
   create_grade_notification env0 db_fees grade1 False = Inr db_fees \<and>
   create_exam_notification env0 db_fees exam1 False = Inr db_fees \<and>
   create_fee_notification env0 db_fees fee1 False = Inr db_fees \<and>
   create_fee_notification env0 db_fees (fee1\<lparr>is_paid := True\<rparr>) True = Inr db_fees"
  by (simp add: create_enrollment_notification_def create_attendance_notification_def
      create_grade_notification_def create_exam_notification_def create_fee_notification_def
      fee1_def env0_def)

lemma db_fees_tables:
  "get_student db_fees 1 = Some (mk_student 1 ''bob'' 2 1)"
  "get_program db_fees 1 = get_program db_school 1"
  "get_course db_fees 1 = get_course db_school 1"
  "get_department db_fees 1 = get_department db_school 1"
  "get_exam db_fees 1 = Some exam1"
  "length (notifications db_fees) = 4"
  "students db_fees = students db_school"
  by (simp_all add: db_fees_def db_school_def empty_db_def get_student_def get_program_def
      get_course_def get_department_def get_exam_def mk_student_def exam1_def)

theorem post_save_notification_counts_witness:
  "notif_count (create_admission_notification env0 db_fees admission1 False) = Some 5 \<and>
   notif_count (create_staff_notification env0 db_fees staff1 False) = Some 5 \<and>
   notif_count (create_enrollment_notification env0 db_fees enrollment1 True) = Some 5 \<and>
   notif_count (create_attendance_notification env0 db_fees attendance1 True) = Some 5 \<and>
   notif_count (create_grade_notification env0 db_fees grade1 True) = Some 5 \<and>
   notif_count (create_exam_notification env0 db_fees exam1 True) = Some 6 \<and>
   notif_count (create_fee_notification env0 db_fees fee1 True) = Some 5"
proof -
  note t = post_save_notification_counts[of db_fees admission1 env0 _ staff1 enrollment1
      attendance1 grade1 exam1 "\<lparr>c_id = 1, c_code = ''CS101'', c_title = ''Programming'',
      credit_hours = 30, c_semester = 1, c_program = 1\<rparr>" fee1]
  have h: "get_student db_fees (ad_student admission1) \<noteq> None"
    "get_program db_fees (ad_program admission1) \<noteq> None"
    "\<forall>k. sf_department staff1 = Some k \<longrightarrow> get_department db_fees k \<noteq> None"
    "get_student db_fees (en_student enrollment1) \<noteq> None"
    "get_course db_fees (en_course enrollment1) \<noteq> None"
    "get_student db_fees (at_student attendance1) \<noteq> None"
    "get_course db_fees (at_course attendance1) \<noteq> None"
    "get_student db_fees (gr_student grade1) \<noteq> None"
    "\<exists>x. get_exam db_fees (gr_exam grade1) = Some x \<and> get_course db_fees (ex_course x) \<noteq> None"
    "get_course db_fees (ex_course exam1) = Some \<lparr>c_id = 1, c_code = ''CS101'',
       c_title = ''Programming'', credit_hours = 30, c_semester = 1, c_program = 1\<rparr>"
    "get_program db_fees 1 \<noteq> None"
    "get_student db_fees (fe_student fee1) \<noteq> None"
    using db_fees_tables db_school_tables
    by (simp_all add: admission1_def staff1_def enrollment1_def attendance1_def grade1_def
        exam1_def fee1_def)
  have n: "length (filter (\<lambda>s. s_program s = 1) (students db_fees)) = 2"
    by (simp add: db_fees_tables(7) db_school_tables(6) mk_student_def)
  from t[of False] h have
    "notif_count (create_admission_notification env0 db_fees admission1 False) = Some 5"
    "notif_count (create_staff_notification env0 db_fees staff1 False) = Some 5"
    by (simp_all add: db_fees_tables(6))
  moreover from t[of True] h n have
    "notif_count (create_enrollment_notification env0 db_fees enrollment1 True) = Some 5"
    "notif_count (create_attendance_notification env0 db_fees attendance1 True) = Some 5"
    "notif_count (create_grade_notification env0 db_fees grade1 True) = Some 5"
    "notif_count (create_exam_notification env0 db_fees exam1 True) = Some 6"
    "notif_count (create_fee_notification env0 db_fees fee1 True) = Some 5"
    by (simp_all add: db_fees_tables(6) fee1_def)
  ultimately show ?thesis by simp
qed

subsection \<open>Views\<close>

text \<open>
  Claim C2. For a user whose profile role is \<open>Student\<close> the queryset is exactly the
  \<open>Student\<close> rows whose \<open>user\<close> is the requesting user, so every row of it belongs to
  that user, and any other database in which the user has the same profile and the same
  rows of their own gives the same queryset, whatever the other students' rows are. For
  \<open>Staff\<close> and every other role the queryset holds all \<open>Student\<close> rows (in table order
  for \<open>Staff\<close>, by descending key otherwise).
\<close>

theorem get_queryset_scoped:
  "profile_of d usr = Some p \<Longrightarrow>
   (role p = ''Student'' \<longrightarrow>
      (\<exists>qs. StudentViewSet_get_queryset d usr = Inr qs \<and>
         qs = filter (\<lambda>s. s_user s = Some (u_id usr)) (students d) \<and>
         list_all (\<lambda>s. s_user s = Some (u_id usr)) qs \<and>
         (\<forall>d'. profile_of d' usr = Some p \<and>
               filter (\<lambda>s. s_user s = Some (u_id usr)) (students d') =
               filter (\<lambda>s. s_user s = Some (u_id usr)) (students d) \<longrightarrow>
               StudentViewSet_get_queryset d' usr = Inr qs))) \<and>
   (role p \<noteq> ''Student'' \<longrightarrow>
      (\<exists>qs. StudentViewSet_get_queryset d usr = Inr qs \<and> mset qs = mset (students d)))"
  by (auto simp: StudentViewSet_get_queryset_def StudentViewSet_queryset_def list_all_iff)

theorem get_queryset_scoped_witness:
  "StudentViewSet_get_queryset db_school (mk_user 2 ''bob'' False) = Inr [mk_student 1 ''bob'' 2 1] \<and>
   StudentViewSet_get_queryset db_school2 (mk_user 2 ''bob'' False) = Inr [mk_student 1 ''bob'' 2 1] \<and>
   (case StudentViewSet_get_queryset db_school (mk_user 1 ''alice'' True) of
      Inl _ \<Rightarrow> False | Inr qs \<Rightarrow> mset qs = mset (students db_school))"
proof -
  let ?bob = "mk_user 2 ''bob'' False" and ?alice = "mk_user 1 ''alice'' True"
  have pb: "profile_of db_school ?bob = Some \<lparr>up_id = 2, up_user = 2, role = ''Student''\<rparr>"
    and pb2: "profile_of db_school2 ?bob = Some \<lparr>up_id = 2, up_user = 2, role = ''Student''\<rparr>"
    and pa: "profile_of db_school ?alice = Some \<lparr>up_id = 1, up_user = 1, role = ''Staff''\<rparr>"
    by (simp_all add: profile_of_def db_school_def db_school2_def empty_db_def mk_user_def)
  have same: "filter (\<lambda>s. s_user s = Some (u_id ?bob)) (students db_school2) =
              filter (\<lambda>s. s_user s = Some (u_id ?bob)) (students db_school)"
    and rows: "filter (\<lambda>s. s_user s = Some (u_id ?bob)) (students db_school) = [mk_student 1 ''bob'' 2 1]"
    by (simp_all add: db_school_def db_school2_def empty_db_def mk_user_def mk_student_def)
  from get_queryset_scoped[OF pb] rows
  have b1: "StudentViewSet_get_queryset db_school ?bob = Inr [mk_student 1 ''bob'' 2 1]"
    and b2: "\<And>d'. profile_of d' ?bob = Some \<lparr>up_id = 2, up_user = 2, role = ''Student''\<rparr> \<Longrightarrow>
               filter (\<lambda>s. s_user s = Some (u_id ?bob)) (students d') =
               filter (\<lambda>s. s_user s = Some (u_id ?bob)) (students db_school) \<Longrightarrow>
               StudentViewSet_get_queryset d' ?bob = Inr [mk_student 1 ''bob'' 2 1]"
    by auto
  from get_queryset_scoped[OF pa] obtain qs where
    "StudentViewSet_get_queryset db_school ?alice = Inr qs" "mset qs = mset (students db_school)"
    by auto
  with b1 b2[OF pb2 same] show ?thesis by simp
qed


lemma date_filter_None [simp]: "date_filter e None s en rows = rows"
  by (simp add: date_filter_def)

lemma date_filter_Some [simp]:
  "date_filter e (Some f) (Some s) (Some en) rows =
     filter (\<lambda>r. midnight e s \<le> f r \<and> f r \<le> midnight e en) rows"
  by (simp add: date_filter_def)

lemma date_add_ok: "date_min \<le> dt + n \<Longrightarrow> dt + n \<le> date_max \<Longrightarrow> date_add dt n = Inr (dt + n)"
  by (simp add: date_add_def)







text \<open>
  A custom range that ends on the last day of the calendar is not answered at all: the
  day after it does not exist, and \<open>OverflowError\<close> is not the exception the handler
  catches.
\<close>

lemma dashboard_end_of_time_raises:
  "qp_filter q = Some ''custom'' \<Longrightarrow> qp_start q = Some a \<Longrightarrow> a \<noteq> [] \<Longrightarrow> qp_end q = Some b \<Longrightarrow>
   b \<noteq> [] \<Longrightarrow> sp a = Some s \<Longrightarrow> sp b = Some date_max \<Longrightarrow>
     DashboardAPIView_get sp e d q = Raised OverflowError"
  by (simp add: DashboardAPIView_get_def date_range_def truthy_def date_add_def)



subsection \<open>Uniqueness of enrollment and attendance rows\<close>

lemma notin_image_iff: "f a \<notin> f ` S \<longleftrightarrow> (\<forall>y\<in>S. f y \<noteq> f a)"
  by (auto simp: image_iff)

lemma replace_row_distinct:
  assumes "distinct (map idf xs)" "distinct (map key xs)"
    and "\<forall>y\<in>set xs. key y = key x \<longrightarrow> idf y = idf x"
  shows "distinct (map key (map (\<lambda>y. if idf y = idf x then x else y) xs)) \<and>
         map idf (map (\<lambda>y. if idf y = idf x then x else y) xs) = map idf xs"
  using assms
proof (induction xs)
  case Nil
  then show ?case by simp
next
  case (Cons a xs)
  let ?f = "\<lambda>y. if idf y = idf x then x else y"
  from Cons.prems have p: "distinct (map idf xs)" "distinct (map key xs)"
    "\<forall>y\<in>set xs. key y = key x \<longrightarrow> idf y = idf x"
    and na: "\<forall>y\<in>set xs. idf y \<noteq> idf a" and ka: "\<forall>y\<in>set xs. key y \<noteq> key a"
    and ax: "key a = key x \<longrightarrow> idf a = idf x"
    by (simp_all add: notin_image_iff)
  from Cons.IH[OF p] have IH: "distinct (map key (map ?f xs))" "map idf (map ?f xs) = map idf xs"
    by blast+
  show ?case
  proof (cases "idf a = idf x")
    case True
    with na have nx: "\<forall>y\<in>set xs. idf y \<noteq> idf x" by simp
    then have same: "map ?f xs = xs" by (simp add: map_idI)
    have "\<forall>y\<in>set xs. key y \<noteq> key x"
    proof
      fix y assume y: "y \<in> set xs"
      show "key y \<noteq> key x"
      proof
        assume "key y = key x"
        with p(3) y have "idf y = idf x" by simp
        with nx y show False by simp
      qed
    qed
    then have "key x \<notin> set (map key xs)" by (simp add: notin_image_iff)
    with True same p(2) show ?thesis by simp
  next
    case False
    have "\<forall>z\<in>set (map ?f xs). key z \<noteq> key a"
    proof
      fix z assume "z \<in> set (map ?f xs)"
      then obtain y where y: "y \<in> set xs" "z = ?f y" by auto
      show "key z \<noteq> key a"
      proof (cases "idf y = idf x")
        case True
        with y have "z = x" by simp
        with ax False show ?thesis by auto
      next
        case F: False
        with y have "z = y" by simp
        with y ka show ?thesis by simp
      qed
    qed
    then have nk: "key a \<notin> set (map key (map ?f xs))"
      unfolding set_map[of key] by (simp only: notin_image_iff)
    show ?thesis unfolding list.map distinct.simps IH(2) using nk IH(1) False by simp
  qed
qed

lemma Notification_objects_create_tables [simp]:
  "enrollments (Notification_objects_create e d rs rf ty ti msg rd ar) = enrollments d"
  "attendances (Notification_objects_create e d rs rf ty ti msg rd ar) = attendances d"
  by (simp_all add: Notification_objects_create_def)

lemma enrollment_receiver_tables:
  "create_enrollment_notification e d x c = Inr d' \<Longrightarrow>
     enrollments d' = enrollments d \<and> attendances d' = attendances d"
  unfolding create_enrollment_notification_def
  by (cases c; cases "get_student d (en_student x)"; cases "get_course d (en_course x)") auto

lemma attendance_receiver_tables:
  "create_attendance_notification e d x c = Inr d' \<Longrightarrow>
     enrollments d' = enrollments d \<and> attendances d' = attendances d"
  unfolding create_attendance_notification_def
  by (cases c; cases "get_student d (at_student x)"; cases "get_course d (at_course x)") auto

lemma Enrollment_objects_create_tables:
  "fst (Enrollment_objects_create e d x) = d \<or>
   (attendances (fst (Enrollment_objects_create e d x)) = attendances d \<and>
    (\<exists>row. enrollments (fst (Enrollment_objects_create e d x)) = enrollments d @ [row] \<and>
       enrollment_key row = enrollment_key x \<and> en_id row = next_pk (map en_id (enrollments d)) \<and>
       \<not> list_ex (\<lambda>y. enrollment_key y = enrollment_key x) (enrollments d)))"
proof (cases "list_ex (\<lambda>y. enrollment_key y = enrollment_key x) (enrollments d)
         \<or> get_student d (en_student x) = None \<or> get_course d (en_course x) = None")
  case True
  then show ?thesis by (simp add: Enrollment_objects_create_def)
next
  case False
  let ?row = "x\<lparr>en_id := next_pk (map en_id (enrollments d)), date_enrolled := today e\<rparr>"
  let ?d1 = "d\<lparr>enrollments := enrollments d @ [?row]\<rparr>"
  have k: "enrollment_key ?row = enrollment_key x" by (simp add: enrollment_key_def)
  show ?thesis
  proof (cases "create_enrollment_notification e ?d1 ?row True")
    case (Inl err)
    with False k show ?thesis by (simp add: Enrollment_objects_create_def Let_def)
  next
    case (Inr d2)
    from enrollment_receiver_tables[OF Inr] False k Inr show ?thesis
      by (simp add: Enrollment_objects_create_def Let_def)
  qed
qed

lemma Enrollment_save_tables:
  "fst (Enrollment_save e d x) = d \<or>
   (attendances (fst (Enrollment_save e d x)) = attendances d \<and>
    enrollments (fst (Enrollment_save e d x)) =
      map (\<lambda>y. if en_id y = en_id x then x else y) (enrollments d) \<and>
    \<not> list_ex (\<lambda>y. enrollment_key y = enrollment_key x \<and> en_id y \<noteq> en_id x) (enrollments d))"
  by (simp add: Enrollment_save_def Let_def create_enrollment_notification_def)

lemma Attendance_objects_create_tables:
  "fst (Attendance_objects_create e d x) = d \<or>
   (enrollments (fst (Attendance_objects_create e d x)) = enrollments d \<and>
    (\<exists>row. attendances (fst (Attendance_objects_create e d x)) = attendances d @ [row] \<and>
       attendance_key row = attendance_key x \<and> at_id row = next_pk (map at_id (attendances d)) \<and>
       \<not> list_ex (\<lambda>y. attendance_key y = attendance_key x) (attendances d)))"
proof (cases "list_ex (\<lambda>y. attendance_key y = attendance_key x) (attendances d)
         \<or> get_student d (at_student x) = None \<or> get_course d (at_course x) = None")
  case True
  then show ?thesis by (simp add: Attendance_objects_create_def)
next
  case False
  let ?row = "x\<lparr>at_id := next_pk (map at_id (attendances d))\<rparr>"
  let ?d1 = "d\<lparr>attendances := attendances d @ [?row]\<rparr>"
  have k: "attendance_key ?row = attendance_key x" by (simp add: attendance_key_def)
  show ?thesis
  proof (cases "create_attendance_notification e ?d1 ?row True")
    case (Inl err)
    with False k show ?thesis by (simp add: Attendance_objects_create_def Let_def)
  next
    case (Inr d2)
    from attendance_receiver_tables[OF Inr] False k Inr show ?thesis
      by (simp add: Attendance_objects_create_def Let_def)
  qed
qed

lemma Attendance_save_tables:
  "fst (Attendance_save e d x) = d \<or>
   (enrollments (fst (Attendance_save e d x)) = enrollments d \<and>
    attendances (fst (Attendance_save e d x)) =
      map (\<lambda>y. if at_id y = at_id x then x else y) (attendances d) \<and>
    \<not> list_ex (\<lambda>y. attendance_key y = attendance_key x \<and> at_id y \<noteq> at_id x) (attendances d))"
  by (simp add: Attendance_save_def Let_def create_attendance_notification_def)

lemma rows_inv_en_create: assumes "rows_inv d" shows "rows_inv (fst (Enrollment_objects_create e d x))"
  using Enrollment_objects_create_tables[of e d x]
proof
  assume "fst (Enrollment_objects_create e d x) = d"
  with assms show ?thesis by simp
next
  assume "attendances (fst (Enrollment_objects_create e d x)) = attendances d \<and>
    (\<exists>row. enrollments (fst (Enrollment_objects_create e d x)) = enrollments d @ [row] \<and>
       enrollment_key row = enrollment_key x \<and> en_id row = next_pk (map en_id (enrollments d)) \<and>
       \<not> list_ex (\<lambda>y. enrollment_key y = enrollment_key x) (enrollments d))"
  then obtain row where r: "attendances (fst (Enrollment_objects_create e d x)) = attendances d"
    "enrollments (fst (Enrollment_objects_create e d x)) = enrollments d @ [row]"
    "enrollment_key row = enrollment_key x" "en_id row = next_pk (map en_id (enrollments d))"
    "\<not> list_ex (\<lambda>y. enrollment_key y = enrollment_key x) (enrollments d)" by blast
  from r(4) have "en_id row \<notin> set (map en_id (enrollments d))"
    using next_pk_fresh[of "map en_id (enrollments d)"] by simp
  moreover from r(3,5) have "enrollment_key row \<notin> set (map enrollment_key (enrollments d))"
    by (auto simp: list_ex_iff)
  ultimately show ?thesis using assms r(1,2) by (simp add: rows_inv_def unique_rows_def)
qed

lemma rows_inv_at_create: assumes "rows_inv d" shows "rows_inv (fst (Attendance_objects_create e d x))"
  using Attendance_objects_create_tables[of e d x]
proof
  assume "fst (Attendance_objects_create e d x) = d"
  with assms show ?thesis by simp
next
  assume "enrollments (fst (Attendance_objects_create e d x)) = enrollments d \<and>
    (\<exists>row. attendances (fst (Attendance_objects_create e d x)) = attendances d @ [row] \<and>
       attendance_key row = attendance_key x \<and> at_id row = next_pk (map at_id (attendances d)) \<and>
       \<not> list_ex (\<lambda>y. attendance_key y = attendance_key x) (attendances d))"
  then obtain row where r: "enrollments (fst (Attendance_objects_create e d x)) = enrollments d"
    "attendances (fst (Attendance_objects_create e d x)) = attendances d @ [row]"
    "attendance_key row = attendance_key x" "at_id row = next_pk (map at_id (attendances d))"
    "\<not> list_ex (\<lambda>y. attendance_key y = attendance_key x) (attendances d)" by blast
  from r(4) have "at_id row \<notin> set (map at_id (attendances d))"
    using next_pk_fresh[of "map at_id (attendances d)"] by simp
  moreover from r(3,5) have "attendance_key row \<notin> set (map attendance_key (attendances d))"
    by (auto simp: list_ex_iff)
  ultimately show ?thesis using assms r(1,2) by (simp add: rows_inv_def unique_rows_def)
qed

lemma rows_inv_en_save: assumes "rows_inv d" shows "rows_inv (fst (Enrollment_save e d x))"
  using Enrollment_save_tables[of e d x]
proof
  assume "fst (Enrollment_save e d x) = d"
  with assms show ?thesis by simp
next
  assume a: "attendances (fst (Enrollment_save e d x)) = attendances d \<and>
    enrollments (fst (Enrollment_save e d x)) =
      map (\<lambda>y. if en_id y = en_id x then x else y) (enrollments d) \<and>
    \<not> list_ex (\<lambda>y. enrollment_key y = enrollment_key x \<and> en_id y \<noteq> en_id x) (enrollments d)"
  then have tb: "enrollments (fst (Enrollment_save e d x)) =
      map (\<lambda>y. if en_id y = en_id x then x else y) (enrollments d)"
    and ot: "attendances (fst (Enrollment_save e d x)) = attendances d" by blast+
  from a have c: "\<forall>y\<in>set (enrollments d). enrollment_key y = enrollment_key x \<longrightarrow> en_id y = en_id x"
    by (auto simp: list_ex_iff)
  have ids: "distinct (map en_id (enrollments d))" and keys: "distinct (map enrollment_key (enrollments d))"
    using assms by (simp_all add: rows_inv_def unique_rows_def)
  from replace_row_distinct[where idf = en_id and key = enrollment_key, OF ids keys c]
  have k': "distinct (map enrollment_key (map (\<lambda>y. if en_id y = en_id x then x else y) (enrollments d)))"
    and i': "map en_id (map (\<lambda>y. if en_id y = en_id x then x else y) (enrollments d)) = map en_id (enrollments d)"
    by blast+
  show ?thesis
    unfolding rows_inv_def unique_rows_def tb ot i' using k' ids assms
    unfolding rows_inv_def unique_rows_def by blast
qed

lemma rows_inv_at_save: assumes "rows_inv d" shows "rows_inv (fst (Attendance_save e d x))"
  using Attendance_save_tables[of e d x]
proof
  assume "fst (Attendance_save e d x) = d"
  with assms show ?thesis by simp
next
  assume a: "enrollments (fst (Attendance_save e d x)) = enrollments d \<and>
    attendances (fst (Attendance_save e d x)) =
      map (\<lambda>y. if at_id y = at_id x then x else y) (attendances d) \<and>
    \<not> list_ex (\<lambda>y. attendance_key y = attendance_key x \<and> at_id y \<noteq> at_id x) (attendances d)"
  then have tb: "attendances (fst (Attendance_save e d x)) =
      map (\<lambda>y. if at_id y = at_id x then x else y) (attendances d)"
    and ot: "enrollments (fst (Attendance_save e d x)) = enrollments d" by blast+
  from a have c: "\<forall>y\<in>set (attendances d). attendance_key y = attendance_key x \<longrightarrow> at_id y = at_id x"
    by (auto simp: list_ex_iff)
  have ids: "distinct (map at_id (attendances d))" and keys: "distinct (map attendance_key (attendances d))"
    using assms by (simp_all add: rows_inv_def unique_rows_def)
  from replace_row_distinct[where idf = at_id and key = attendance_key, OF ids keys c]
  have k': "distinct (map attendance_key (map (\<lambda>y. if at_id y = at_id x then x else y) (attendances d)))"
    and i': "map at_id (map (\<lambda>y. if at_id y = at_id x then x else y) (attendances d)) = map at_id (attendances d)"
    by blast+
  show ?thesis
    unfolding rows_inv_def unique_rows_def tb ot i' using k' ids assms
    unfolding rows_inv_def unique_rows_def by blast
qed

lemma EnrollmentSerializer_run_validation_Inr:
  "EnrollmentSerializer_run_validation d x = Inr vd \<Longrightarrow> vd = x"
  by (simp add: EnrollmentSerializer_run_validation_def EnrollmentSerializer_validate_def split: if_splits)

lemma EnrollmentViewSet_create_fst:
  "fst (EnrollmentViewSet_create e d x) = d \<or>
   fst (EnrollmentViewSet_create e d x) = fst (Enrollment_objects_create e d x)"
proof (cases "EnrollmentSerializer_run_validation d x")
  case (Inl err)
  then show ?thesis by (simp add: EnrollmentViewSet_create_def)
next
  case (Inr vd)
  from EnrollmentSerializer_run_validation_Inr[OF Inr] Inr show ?thesis
    by (cases "Enrollment_objects_create e d x")
       (simp add: EnrollmentViewSet_create_def split: sum.splits)
qed

lemma EnrollmentViewSet_update_fst:
  "fst (EnrollmentViewSet_update e d k x) = d \<or>
   (\<exists>y. fst (EnrollmentViewSet_update e d k x) = fst (Enrollment_save e d y))"
proof (cases "find (\<lambda>y. en_id y = k) (enrollments d)")
  case None
  then show ?thesis by (simp add: EnrollmentViewSet_update_def)
next
  case (Some old)
  show ?thesis
  proof (cases "EnrollmentSerializer_run_validation d x")
    case (Inl err)
    with Some show ?thesis by (simp add: EnrollmentViewSet_update_def)
  next
    case (Inr vd)
    let ?y = "vd\<lparr>en_id := k, date_enrolled := date_enrolled old\<rparr>"
    have "fst (EnrollmentViewSet_update e d k x) = fst (Enrollment_save e d ?y)"
      using Some Inr
      by (cases "Enrollment_save e d ?y") (simp add: EnrollmentViewSet_update_def split: sum.splits)
    then show ?thesis by blast
  qed
qed

lemma AttendanceSerializer_run_validation_Inr:
  "AttendanceSerializer_run_validation d x = Inr vd \<Longrightarrow> vd = x"
  by (simp add: AttendanceSerializer_run_validation_def AttendanceSerializer_validate_def split: if_splits)

lemma AttendanceViewSet_create_fst:
  "fst (AttendanceViewSet_create e d x) = d \<or>
   fst (AttendanceViewSet_create e d x) = fst (Attendance_objects_create e d x)"
proof (cases "AttendanceSerializer_run_validation d x")
  case (Inl err)
  then show ?thesis by (simp add: AttendanceViewSet_create_def)
next
  case (Inr vd)
  from AttendanceSerializer_run_validation_Inr[OF Inr] Inr show ?thesis
    by (cases "Attendance_objects_create e d x")
       (simp add: AttendanceViewSet_create_def split: sum.splits)
qed

lemma AttendanceViewSet_update_fst:
  "fst (AttendanceViewSet_update e d k x) = d \<or>
   (\<exists>y. fst (AttendanceViewSet_update e d k x) = fst (Attendance_save e d y))"
proof (cases "find (\<lambda>y. at_id y = k) (attendances d)")
  case None
  then show ?thesis by (simp add: AttendanceViewSet_update_def)
next
  case (Some old)
  show ?thesis
  proof (cases "AttendanceSerializer_run_validation d x")
    case (Inl err)
    with Some show ?thesis by (simp add: AttendanceViewSet_update_def)
  next
    case (Inr vd)
    let ?y = "vd\<lparr>at_id := k\<rparr>"
    have "fst (AttendanceViewSet_update e d k x) = fst (Attendance_save e d ?y)"
      using Some Inr
      by (cases "Attendance_save e d ?y") (simp add: AttendanceViewSet_update_def split: sum.splits)
    then show ?thesis by blast
  qed
qed

lemma reachable_rows_inv: "reachable_rows d \<Longrightarrow> rows_inv d"
proof (induction rule: reachable_rows.induct)
  case rr_init
  show ?case by (simp add: rows_inv_def unique_rows_def empty_db_def)
next
  case (rr_other d d')
  then show ?case by (simp add: rows_inv_def unique_rows_def)
next
  case (rr_delete d P Q)
  then show ?case by (simp add: rows_inv_def unique_rows_def distinct_map_filter)
next
  case (rr_en_create d e x)
  then show ?case by (simp add: rows_inv_en_create)
next
  case (rr_en_save d e x)
  then show ?case by (simp add: rows_inv_en_save)
next
  case (rr_en_post d e x)
  with EnrollmentViewSet_create_fst[of e d x] show ?case by (auto simp: rows_inv_en_create)
next
  case (rr_en_put d e k x)
  with EnrollmentViewSet_update_fst[of e d k x] show ?case by (auto simp: rows_inv_en_save)
next
  case (rr_at_create d e a)
  then show ?case by (simp add: rows_inv_at_create)
next
  case (rr_at_save d e a)
  then show ?case by (simp add: rows_inv_at_save)
next
  case (rr_at_post d e a)
  with AttendanceViewSet_create_fst[of e d a] show ?case by (auto simp: rows_inv_at_create)
next
  case (rr_at_put d e k a)
  with AttendanceViewSet_update_fst[of e d k a] show ?case by (auto simp: rows_inv_at_save)
qed


text \<open>
  Claim C4. In every reachable state no two \<open>Enrollment\<close> rows agree on
  \<open>(student, course, semester, year)\<close> and no two \<open>Attendance\<close> rows agree on
  \<open>(student, course, date)\<close>. Creating a duplicate through the serializer fails:
  \<open>validate\<close> raises a validation error, the response is 400 and the database is the
  one before the request.
\<close>

theorem unique_enrollment_attendance:
  "reachable_rows d \<Longrightarrow>
     distinct (map enrollment_key (enrollments d)) \<and>
     distinct (map attendance_key (attendances d)) \<and>
     (list_ex (\<lambda>y. enrollment_key y = enrollment_key x) (enrollments d) \<longrightarrow>
        EnrollmentSerializer_validate d x = Inl ValidationError \<and>
        EnrollmentViewSet_create e d x = (d, Returned (Response 400 (Inl ValidationError)))) \<and>
     (list_ex (\<lambda>y. attendance_key y = attendance_key a) (attendances d) \<longrightarrow>
        AttendanceSerializer_validate d a = Inl ValidationError \<and>
        AttendanceViewSet_create e d a = (d, Returned (Response 400 (Inl ValidationError))))"
proof -
  assume "reachable_rows d"
  then have "rows_inv d" by (rule reachable_rows_inv)
  then have u: "distinct (map enrollment_key (enrollments d))"
    "distinct (map attendance_key (attendances d))"
    by (simp_all add: rows_inv_def unique_rows_def)
  have en: "EnrollmentSerializer_validate d x = Inl ValidationError \<and>
        EnrollmentViewSet_create e d x = (d, Returned (Response 400 (Inl ValidationError)))"
    if "list_ex (\<lambda>y. enrollment_key y = enrollment_key x) (enrollments d)"
  proof -
    from that have v: "EnrollmentSerializer_validate d x = Inl ValidationError"
      by (simp add: EnrollmentSerializer_validate_def enrollment_key_def)
    then have "EnrollmentSerializer_run_validation d x = Inl ValidationError"
      by (simp add: EnrollmentSerializer_run_validation_def)
    then show ?thesis using v by (simp add: EnrollmentViewSet_create_def)
  qed
  have at: "AttendanceSerializer_validate d a = Inl ValidationError \<and>
        AttendanceViewSet_create e d a = (d, Returned (Response 400 (Inl ValidationError)))"
    if "list_ex (\<lambda>y. attendance_key y = attendance_key a) (attendances d)"
  proof -
    from that have v: "AttendanceSerializer_validate d a = Inl ValidationError"
      by (simp add: AttendanceSerializer_validate_def attendance_key_def)
    then have "AttendanceSerializer_run_validation d a = Inl ValidationError"
      by (simp add: AttendanceSerializer_run_validation_def)
    then show ?thesis using v by (simp add: AttendanceViewSet_create_def)
  qed
  from u en at show ?thesis by blast
qed

lemma db_school_rows: "enrollments db_school = []" "attendances db_school = []"
  by (simp_all add: db_school_def empty_db_def)

lemma Notification_objects_create_frame [simp]:
  "students (Notification_objects_create e d rs rf ty ti msg rd ar) = students d"
  "courses (Notification_objects_create e d rs rf ty ti msg rd ar) = courses d"
  by (simp_all add: Notification_objects_create_def)

lemma EnrollmentViewSet_create_ok:
  fixes e :: env
  assumes "\<not> list_ex (\<lambda>y. enrollment_key y = enrollment_key x) (enrollments d)"
    and "get_student d (en_student x) \<noteq> None" "get_course d (en_course x) \<noteq> None"
  defines "row \<equiv> x\<lparr>en_id := next_pk (map en_id (enrollments d)), date_enrolled := today e\<rparr>"
  shows "\<exists>d2. EnrollmentViewSet_create e d x = (d2, Returned (Response 201 (Inr row))) \<and>
     enrollments d2 = enrollments d @ [row] \<and> attendances d2 = attendances d \<and>
     students d2 = students d \<and> courses d2 = courses d"
proof -
  let ?d1 = "d\<lparr>enrollments := enrollments d @ [row]\<rparr>"
  from assms(2,3) obtain s c where sc: "get_student d (en_student x) = Some s"
    "get_course d (en_course x) = Some c" by blast
  then have sc1: "get_student ?d1 (en_student row) = Some s" "get_course ?d1 (en_course row) = Some c"
    by (simp_all add: get_student_def get_course_def row_def)
  then obtain d2 where d2: "create_enrollment_notification e ?d1 row True = Inr d2"
    and fr: "enrollments d2 = enrollments ?d1" "attendances d2 = attendances ?d1"
      "students d2 = students ?d1" "courses d2 = courses ?d1"
    by (simp add: create_enrollment_notification_def)
  have v: "EnrollmentSerializer_run_validation d x = Inr x"
    using assms(1) sc
    by (simp add: EnrollmentSerializer_run_validation_def EnrollmentSerializer_validate_def
        enrollment_key_def)
  have c: "Enrollment_objects_create e d x = (d2, Inr row)"
    using assms(1) sc d2 by (simp add: Enrollment_objects_create_def Let_def row_def)
  have "EnrollmentViewSet_create e d x = (d2, Returned (Response 201 (Inr row)))"
    by (simp add: EnrollmentViewSet_create_def v c)
  with fr show ?thesis by simp
qed

lemma AttendanceViewSet_create_ok:
  assumes "\<not> list_ex (\<lambda>y. attendance_key y = attendance_key x) (attendances d)"
    and "get_student d (at_student x) \<noteq> None" "get_course d (at_course x) \<noteq> None"
    and "at_status x \<in> set [''Present'', ''Absent'', ''Leave'']"
  defines "row \<equiv> x\<lparr>at_id := next_pk (map at_id (attendances d))\<rparr>"
  shows "\<exists>d2. AttendanceViewSet_create e d x = (d2, Returned (Response 201 (Inr row))) \<and>
     attendances d2 = attendances d @ [row] \<and> enrollments d2 = enrollments d \<and>
     students d2 = students d \<and> courses d2 = courses d"
proof -
  let ?d1 = "d\<lparr>attendances := attendances d @ [row]\<rparr>"
  from assms(2,3) obtain s c where sc: "get_student d (at_student x) = Some s"
    "get_course d (at_course x) = Some c" by blast
  then have sc1: "get_student ?d1 (at_student row) = Some s" "get_course ?d1 (at_course row) = Some c"
    by (simp_all add: get_student_def get_course_def row_def)
  then obtain d2 where d2: "create_attendance_notification e ?d1 row True = Inr d2"
    and fr: "enrollments d2 = enrollments ?d1" "attendances d2 = attendances ?d1"
      "students d2 = students ?d1" "courses d2 = courses ?d1"
    by (simp add: create_attendance_notification_def)
  have v: "AttendanceSerializer_run_validation d x = Inr x"
    using assms(1,4) sc
    by (simp add: AttendanceSerializer_run_validation_def AttendanceSerializer_validate_def
        attendance_key_def)
  have c: "Attendance_objects_create e d x = (d2, Inr row)"
    using assms(1) sc d2 by (simp add: Attendance_objects_create_def Let_def row_def)
  have "AttendanceViewSet_create e d x = (d2, Returned (Response 201 (Inr row)))"
    by (simp add: AttendanceViewSet_create_def v c)
  with fr show ?thesis by simp
qed

lemma db_enrolled_rows:
  "enrollments db_enrolled = [enrollment1\<lparr>en_id := 1, date_enrolled := 19676\<rparr>]"
  "attendances db_enrolled = [attendance1\<lparr>at_id := 1\<rparr>]"
proof -
  have "get_student db_school (en_student enrollment1) \<noteq> None"
    "get_course db_school (en_course enrollment1) \<noteq> None"
    using db_school_tables by (simp_all add: enrollment1_def)
  from EnrollmentViewSet_create_ok[OF _ this, of env0]
  obtain d1 where d1: "fst (EnrollmentViewSet_create env0 db_school enrollment1) = d1"
    and t1: "enrollments d1 = [enrollment1\<lparr>en_id := 1, date_enrolled := 19676\<rparr>]"
      "attendances d1 = []" "students d1 = students db_school" "courses d1 = courses db_school"
    by (auto simp: db_school_rows next_pk_def env0_def)
  have "get_student d1 (at_student attendance1) \<noteq> None"
    "get_course d1 (at_course attendance1) \<noteq> None"
    using db_school_tables t1(3,4)
    by (simp_all add: attendance1_def get_student_def get_course_def)
  from AttendanceViewSet_create_ok[OF _ this, of env0]
  obtain d2 where d2: "fst (AttendanceViewSet_create env0 d1 attendance1) = d2"
    and t2: "attendances d2 = [attendance1\<lparr>at_id := 1\<rparr>]" "enrollments d2 = enrollments d1"
    by (auto simp: t1 next_pk_def attendance1_def)
  from t1 t2 show "enrollments db_enrolled = [enrollment1\<lparr>en_id := 1, date_enrolled := 19676\<rparr>]"
    "attendances db_enrolled = [attendance1\<lparr>at_id := 1\<rparr>]"
    by (simp_all add: db_enrolled_def d1 d2)
qed

lemma reachable_db_enrolled: "reachable_rows db_enrolled"
  unfolding db_enrolled_def
  by (intro rr_at_post rr_en_post rr_other[OF rr_init, of db_school])
     (simp_all add: db_school_rows empty_db_def)

theorem unique_enrollment_attendance_witness:
  "reachable_rows db_enrolled \<and>
   enrollments db_enrolled = [enrollment1\<lparr>en_id := 1, date_enrolled := 19676\<rparr>] \<and>
   attendances db_enrolled = [attendance1\<lparr>at_id := 1\<rparr>] \<and>
   distinct (map enrollment_key (enrollments db_enrolled)) \<and>
   distinct (map attendance_key (attendances db_enrolled)) \<and>
   EnrollmentViewSet_create env0 db_enrolled enrollment1 =
     (db_enrolled, Returned (Response 400 (Inl ValidationError))) \<and>
   AttendanceViewSet_create env0 db_enrolled attendance1 =
     (db_enrolled, Returned (Response 400 (Inl ValidationError)))"
proof -
  have h1: "list_ex (\<lambda>y. enrollment_key y = enrollment_key enrollment1) (enrollments db_enrolled)"
    by (simp add: db_enrolled_rows enrollment_key_def)
  have h2: "list_ex (\<lambda>y. attendance_key y = attendance_key attendance1) (attendances db_enrolled)"
    by (simp add: db_enrolled_rows attendance_key_def)
  from unique_enrollment_attendance[OF reachable_db_enrolled, of enrollment1 env0 attendance1] h1 h2
  show ?thesis using reachable_db_enrolled db_enrolled_rows by blast
qed

subsection \<open>Recipients of notifications\<close>

lemma noc_one:
  "list_all one_recipient (notifications d) \<Longrightarrow> (rs = None) \<noteq> (rf = None) \<Longrightarrow>
     list_all one_recipient (notifications (Notification_objects_create e d rs rf ty ti msg rd ar))"
  by (simp add: Notification_objects_create_def one_recipient_def)

lemma exam_loop_one:
  "list_all one_recipient (notifications d) \<Longrightarrow>
     list_all one_recipient (notifications (exam_notify_loop e x c ss d))"
  by (induction ss arbitrary: d) (simp_all add: noc_one)

lemma admission_one:
  "create_admission_notification e d a c = Inr d' \<Longrightarrow> list_all one_recipient (notifications d) \<Longrightarrow>
     list_all one_recipient (notifications d')"
  unfolding create_admission_notification_def Let_def
  by (cases "get_student d (ad_student a)"; cases "get_program d (ad_program a)") (auto simp: noc_one)

lemma enrollment_one:
  "create_enrollment_notification e d a c = Inr d' \<Longrightarrow> list_all one_recipient (notifications d) \<Longrightarrow>
     list_all one_recipient (notifications d')"
  unfolding create_enrollment_notification_def
  by (cases c; cases "get_student d (en_student a)"; cases "get_course d (en_course a)")
     (auto simp: noc_one)

lemma attendance_one:
  "create_attendance_notification e d a c = Inr d' \<Longrightarrow> list_all one_recipient (notifications d) \<Longrightarrow>
     list_all one_recipient (notifications d')"
  unfolding create_attendance_notification_def
  by (cases c; cases "get_student d (at_student a)"; cases "get_course d (at_course a)")
     (auto simp: noc_one)

lemma grade_one:
  "create_grade_notification e d a c = Inr d' \<Longrightarrow> list_all one_recipient (notifications d) \<Longrightarrow>
     list_all one_recipient (notifications d')"
  unfolding create_grade_notification_def
  by (cases c; cases "get_student d (gr_student a)"; cases "get_exam d (gr_exam a)")
     (auto simp: noc_one split: option.splits)

lemma exam_one:
  "create_exam_notification e d a c = Inr d' \<Longrightarrow> list_all one_recipient (notifications d) \<Longrightarrow>
     list_all one_recipient (notifications d')"
  unfolding create_exam_notification_def
  by (cases c; cases "get_course d (ex_course a)")
     (auto simp: exam_loop_one split: option.splits)

lemma staff_one:
  "create_staff_notification e d a c = Inr d' \<Longrightarrow> list_all one_recipient (notifications d) \<Longrightarrow>
     list_all one_recipient (notifications d')"
  unfolding create_staff_notification_def
  by (cases c; cases "sf_department a") (auto simp: noc_one split: option.splits)

lemma resolve_one:
  "list_all one_recipient ns \<Longrightarrow>
   list_all one_recipient (map (\<lambda>n. if P n then n\<lparr>read := True, auto_resolved := True\<rparr> else n) ns)"
  by (induction ns) (simp_all add: one_recipient_def)

lemma fee_one:
  "create_fee_notification e d a c = Inr d' \<Longrightarrow> list_all one_recipient (notifications d) \<Longrightarrow>
     list_all one_recipient (notifications d')"
proof -
  assume r: "create_fee_notification e d a c = Inr d'" and i: "list_all one_recipient (notifications d)"
  show ?thesis
  proof (cases "get_student d (fe_student a)")
    case None
    with r i show ?thesis by (simp add: create_fee_notification_def split: if_splits)
  next
    case (Some s)
    let ?d1 = "d\<lparr>notifications :=
                    map (\<lambda>n. if recipient_student n = Some (s_id s) \<and> notif_type n = ''Fee'' \<and> \<not> read n
                              then n\<lparr>read := True, auto_resolved := True\<rparr> else n)
                      (notifications d)\<rparr>"
    have "list_all one_recipient (notifications ?d1)" using resolve_one[OF i] by simp
    with r i Some show ?thesis
      by (auto simp: create_fee_notification_def Let_def noc_one split: if_splits)
  qed
qed

lemma replace_all: "list_all Q ns \<Longrightarrow> Q x \<Longrightarrow> list_all Q (map (\<lambda>m. if C m then x else m) ns)"
  by (induction ns) simp_all

lemma mark_read_one:
  "list_all one_recipient (notifications d) \<Longrightarrow>
     list_all one_recipient (notifications (fst (NotificationViewSet_mark_read d k)))"
proof (cases "find (\<lambda>n. n_id n = k) (notifications d)")
  case None
  then show "list_all one_recipient (notifications d) \<Longrightarrow> ?thesis"
    by (simp add: NotificationViewSet_mark_read_def)
next
  case (Some n)
  assume i: "list_all one_recipient (notifications d)"
  from Some have "n \<in> set (notifications d)" by (auto simp: find_Some_iff)
  with i have "one_recipient n" by (simp add: list_all_iff)
  then have "one_recipient (n\<lparr>read := True\<rparr>)" by (simp add: one_recipient_def)
  with i have "list_all one_recipient (map (\<lambda>m. if n_id m = k then n\<lparr>read := True\<rparr> else m) (notifications d))"
    by (rule replace_all)
  with Some show ?thesis by (simp add: NotificationViewSet_mark_read_def)
qed

lemma reachable_one:
  "reachable_notifications False d \<Longrightarrow> list_all one_recipient (notifications d)"
proof (induction rule: reachable_notifications.induct)
  case rn_init
  show ?case by (simp add: empty_db_def)
next
  case (rn_other d d')
  then show ?case by simp
next
  case (rn_delete d P)
  then show ?case by (simp add: list_all_iff)
next
  case (rn_admission d e ad created d')
  then show ?case by (blast intro: admission_one)
next
  case (rn_enrollment d e en created d')
  then show ?case by (blast intro: enrollment_one)
next
  case (rn_fee d e fe created d')
  then show ?case by (blast intro: fee_one)
next
  case (rn_exam d e ex created d')
  then show ?case by (blast intro: exam_one)
next
  case (rn_attendance d e at created d')
  then show ?case by (blast intro: attendance_one)
next
  case (rn_grade d e gr created d')
  then show ?case by (blast intro: grade_one)
next
  case (rn_staff d e sf created d')
  then show ?case by (blast intro: staff_one)
next
  case (rn_mark_read d k)
  then show ?case by (simp add: mark_read_one)
next
  case (rn_post d e data)
  then show ?case by simp
qed

text \<open>
  Claim C8, as amended. Both recipient fields are nullable. In every state reached without
  a write through \<open>NotificationSerializer\<close> (the receivers, \<open>mark_read\<close>, deletions and
  operations on other tables) every notification has at most one of \<open>recipient_student\<close>
  and \<open>recipient_staff\<close> set, and in fact exactly one.
\<close>

theorem notification_recipients:
  "reachable_notifications False d \<Longrightarrow>
     list_all at_most_one_recipient (notifications d) \<and> list_all one_recipient (notifications d)"
proof -
  assume "reachable_notifications False d"
  then have o: "list_all one_recipient (notifications d)" by (rule reachable_one)
  then have "list_all at_most_one_recipient (notifications d)"
    by (auto simp: list_all_iff one_recipient_def at_most_one_recipient_def)
  with o show ?thesis by simp
qed

lemma reachable_db_school: "reachable_notifications api db_school"
  by (rule rn_other[OF rn_init]) (simp add: db_school_def empty_db_def)

text \<open>
  The claim as stated fails: a \<open>POST\<close> to the notification endpoint that names a student
  and a staff member is valid and stores a row with both recipients set.
\<close>

theorem notification_recipients_counterexample:
  "reachable_notifications True (fst (NotificationViewSet_create env0 db_school both_recipients)) \<and>
   map recipient_student (notifications (fst (NotificationViewSet_create env0 db_school both_recipients)))
     = [Some 1] \<and>
   map recipient_staff (notifications (fst (NotificationViewSet_create env0 db_school both_recipients)))
     = [Some 1] \<and>
   \<not> list_all at_most_one_recipient
        (notifications (fst (NotificationViewSet_create env0 db_school both_recipients)))"
proof -
  have v: "NotificationSerializer_is_valid db_school both_recipients"
    using db_school_tables(1)
    by (simp add: NotificationSerializer_is_valid_def both_recipients_def get_staff_def
        db_school_def empty_db_def)
  have r: "reachable_notifications True (fst (NotificationViewSet_create env0 db_school both_recipients))"
    by (rule rn_post[OF _ reachable_db_school]) simp
  from v have "notifications (fst (NotificationViewSet_create env0 db_school both_recipients)) =
     [\<lparr>n_id = 1, recipient_student = Some 1, recipient_staff = Some 1, notif_type = ''Info'',
       title = ''Hello'', message = ''To both'', created_at = 1700000000, read = False,
       auto_resolved = False\<rparr>]"
    by (simp add: NotificationViewSet_create_def Notification_objects_create_def Let_def
        both_recipients_def db_school_tables(5) next_pk_def env0_def)
  with r show ?thesis by (simp add: at_most_one_recipient_def)
qed

theorem notification_recipients_witness:
  "reachable_notifications False (exam_notify_loop env0 exam1
       \<lparr>c_id = 1, c_code = ''CS101'', c_title = ''Programming'', credit_hours = 30,
         c_semester = 1, c_program = 1\<rparr> [mk_student 1 ''bob'' 2 1, mk_student 2 ''carol'' 3 1] db_school) \<and>
   list_all at_most_one_recipient (notifications (exam_notify_loop env0 exam1
       \<lparr>c_id = 1, c_code = ''CS101'', c_title = ''Programming'', credit_hours = 30,
         c_semester = 1, c_program = 1\<rparr> [mk_student 1 ''bob'' 2 1, mk_student 2 ''carol'' 3 1] db_school)) \<and>
   length (notifications (exam_notify_loop env0 exam1
       \<lparr>c_id = 1, c_code = ''CS101'', c_title = ''Programming'', credit_hours = 30,
         c_semester = 1, c_program = 1\<rparr> [mk_student 1 ''bob'' 2 1, mk_student 2 ''carol'' 3 1] db_school)) = 2"
proof -
  let ?c = "\<lparr>c_id = 1, c_code = ''CS101'', c_title = ''Programming'', credit_hours = 30,
         c_semester = 1, c_program = 1\<rparr>"
  let ?d = "exam_notify_loop env0 exam1 ?c [mk_student 1 ''bob'' 2 1, mk_student 2 ''carol'' 3 1] db_school"
  have "create_exam_notification env0 db_school exam1 True = Inr ?d"
    using db_school_tables(2,3,6)
    by (simp add: create_exam_notification_def exam1_def mk_student_def)
  from rn_exam[OF reachable_db_school this] have r: "reachable_notifications False ?d" .
  have "length (notifications ?d) = 2"
    unfolding length_exam_notify_loop by (simp add: db_school_tables(5))
  with notification_recipients[OF r] r show ?thesis by simp
qed


subsection \<open>Bulk creation\<close>

lemma atomic_bulk_post_invalid:
  "\<not> list_all v data \<Longrightarrow>
     atomic (bulk_post v create render msg data) d =
       (d, Returned (Response 400 (Errors (map (\<lambda>x. \<not> v x) data))))"
  by (simp add: atomic_def bulk_post_def)

lemma atomic_bulk_post_raises:
  assumes "list_all v data"
    and "\<And>d1 rows. create_each create d data = (d1, Inr rows) \<Longrightarrow> \<exists>err. render d1 rows = Inl err"
  shows "\<exists>err. atomic (bulk_post v create render msg data) d = (d, Raised err)"
proof (cases "create_each create d data")
  case (Pair d1 r)
  show ?thesis
  proof (cases r)
    case (Inl err)
    with Pair assms(1) show ?thesis by (simp add: atomic_def bulk_post_def)
  next
    case (Inr rows)
    with Pair assms(2) obtain err where "render d1 rows = Inl err" by blast
    with Pair Inr assms(1) show ?thesis by (simp add: atomic_def bulk_post_def)
  qed
qed

lemma Course_objects_create_Inr:
  "Course_objects_create d c = Inr (d1, row) \<Longrightarrow>
     d1 = d\<lparr>courses := courses d @ [row]\<rparr> \<and> row = c\<lparr>c_id := c_id row\<rparr>"
  by (auto simp: Course_objects_create_def Let_def split: if_splits)

lemma create_each_courses:
  "create_each Course_objects_create d cs = (d', Inr rows) \<Longrightarrow>
     d' = d\<lparr>courses := courses d @ rows\<rparr> \<and> list_all2 (\<lambda>r c. r = c\<lparr>c_id := c_id r\<rparr>) rows cs"
proof (induction cs arbitrary: d d' rows)
  case Nil
  then show ?case by simp
next
  case (Cons c cs)
  from Cons.prems obtain d1 row where c1: "Course_objects_create d c = Inr (d1, row)"
    by (cases "Course_objects_create d c") auto
  with Cons.prems obtain rows' where r: "create_each Course_objects_create d1 cs = (d', Inr rows')"
    "rows = row # rows'"
    by (cases "create_each Course_objects_create d1 cs") (auto split: sum.splits)
  from Cons.IH[OF r(1)] have IH: "d' = d1\<lparr>courses := courses d1 @ rows'\<rparr>"
    "list_all2 (\<lambda>r c. r = c\<lparr>c_id := c_id r\<rparr>) rows' cs" by blast+
  from Course_objects_create_Inr[OF c1] have d1: "d1 = d\<lparr>courses := courses d @ [row]\<rparr>"
    and row: "row = c\<lparr>c_id := c_id row\<rparr>" by blast+
  from IH(1) d1 have "d' = d\<lparr>courses := courses d @ rows\<rparr>" by (simp add: r(2))
  with IH(2) row r(2) show ?case by simp
qed

lemma hyperlinks_without_request:
  "ks \<noteq> [] \<Longrightarrow> list_data (hyperlink_to False vn) ks = Inl AssertionError"
  by (cases ks) (simp_all add: hyperlink_to_def)

lemma ProgramSerializer_without_request:
  assumes "list_ex (\<lambda>c. c_program c = pg_id p) (courses d)"
  shows "\<exists>err. ProgramSerializer_to_representation False d p = Inl err"
proof -
  from assms have ne: "map c_id (filter (\<lambda>c. c_program c = pg_id p) (courses d)) \<noteq> []"
    by (auto simp: list_ex_iff filter_empty_conv)
  show ?thesis
  proof (cases "get_department d (pg_department p)")
    case None
    then show ?thesis by (simp add: ProgramSerializer_to_representation_def)
  next
    case (Some dp)
    show ?thesis
    proof (cases "DepartmentSerializer_to_representation False d dp")
      case (Inl err)
      with Some show ?thesis by (simp add: ProgramSerializer_to_representation_def)
    next
      case (Inr dr)
      with Some hyperlinks_without_request[OF ne] show ?thesis
        by (simp add: ProgramSerializer_to_representation_def)
    qed
  qed
qed

lemma CourseSerializer_without_request:
  assumes "c \<in> set (courses d)"
  shows "\<exists>err. CourseSerializer_to_representation False d c = Inl err"
proof (cases "get_program d (c_program c)")
  case None
  then show ?thesis by (simp add: CourseSerializer_to_representation_def)
next
  case (Some p)
  from get_program_id[OF Some] assms have "list_ex (\<lambda>x. c_program x = pg_id p) (courses d)"
    by (auto simp: list_ex_iff)
  from ProgramSerializer_without_request[OF this] obtain err where
    "ProgramSerializer_to_representation False d p = Inl err" by blast
  with Some show ?thesis by (simp add: CourseSerializer_to_representation_def)
qed

text \<open>
  The same holds for every list that validates and is not empty: the created course is
  one of the courses of its own program, whose hyperlinks cannot be built.
\<close>

lemma course_bulk_create_raises:
  assumes "cs \<noteq> []" "list_all (CourseSerializer_item_valid d) cs"
  shows "\<exists>err. CourseBulkAPIView_post d cs = (d, Raised err)"
  unfolding CourseBulkAPIView_post_def
proof (rule atomic_bulk_post_raises[OF assms(2)])
  fix d1 rows
  assume ce: "create_each Course_objects_create d cs = (d1, Inr rows)"
  from create_each_courses[OF ce] have d1: "d1 = d\<lparr>courses := courses d @ rows\<rparr>"
    and l: "list_all2 (\<lambda>r c. r = c\<lparr>c_id := c_id r\<rparr>) rows cs" by blast+
  from l assms(1) obtain r rs where rows: "rows = r # rs"
    by (cases rows) (auto simp: list_all2_Cons1)
  with d1 have "r \<in> set (courses d1)" by simp
  from CourseSerializer_without_request[OF this] obtain err where
    "CourseSerializer_to_representation False d1 r = Inl err" by blast
  then show "\<exists>err. list_data (CourseSerializer_to_representation False d1) rows = Inl err"
    by (simp add: rows)
qed



lemma bulk_create_empty_list:
  "CourseBulkAPIView_post d [] =
     (d, Returned (Response 201 (Created ''Courses created successfully'' []))) \<and>
   StudentBulkAPIView_post email_ok e d [] =
     (d, Returned (Response 201 (Created ''Students created successfully'' [])))"
  by (simp add: CourseBulkAPIView_post_def StudentBulkAPIView_post_def atomic_def bulk_post_def)

text \<open>
  A list that does not validate is answered with 400 and leaves the database as it was;
  the empty list is the only one answered with 201.
\<close>

lemma bulk_create_rejects_invalid:
  "(\<not> list_all (CourseSerializer_item_valid d) cs \<longrightarrow>
      CourseBulkAPIView_post d cs =
        (d, Returned (Response 400 (Errors (map (\<lambda>x. \<not> CourseSerializer_item_valid d x) cs))))) \<and>
   (\<not> list_all (StudentSerializer_item_valid email_ok e d) ss \<longrightarrow>
      StudentBulkAPIView_post email_ok e d ss =
        (d, Returned (Response 400
               (Errors (map (\<lambda>x. \<not> StudentSerializer_item_valid email_ok e d x) ss)))))"
  unfolding CourseBulkAPIView_post_def StudentBulkAPIView_post_def
  by (simp add: atomic_bulk_post_invalid)





end
